theory Spec2Isabelle
  imports Main "HOL-Library.Word" "HOL-Library.AList" "HOL-Library.Multiset"
begin

section \<open>JavaScript values\<close>

text \<open>
  A JavaScript string is a sequence of UTF-16 code units. \<open>js\<close> turns an ASCII literal
  into such a sequence. \<open>trim\<close> is \<^verbatim>\<open>String.prototype.trim\<close>: it removes the
  ECMAScript WhiteSpace and LineTerminator code units from both ends (all of them lie in
  the Basic Multilingual Plane, so looking at single code units is exact).
\<close>

type_synonym jstring = "16 word list"

definition js :: "string \<Rightarrow> jstring" where
  "js s = map (\<lambda>c. of_nat (of_char c)) s"

definition isWhiteSpace :: "16 word \<Rightarrow> bool" where
  "isWhiteSpace c \<longleftrightarrow>
     c \<in> set [0x09, 0x0B, 0x0C, 0x20, 0xA0, 0x1680, 0x202F, 0x205F, 0x3000, 0xFEFF,
              0x0A, 0x0D, 0x2028, 0x2029]
     \<or> (0x2000 \<le> c \<and> c \<le> 0x200A)"

definition trim :: "jstring \<Rightarrow> jstring" where
  "trim s = dropWhile isWhiteSpace (rev (dropWhile isWhiteSpace (rev s)))"

definition newline :: jstring where
  "newline = [0x0A]"

text \<open>
  \<^verbatim>\<open>s.split(c)\<close> and \<^verbatim>\<open>a.join(c)\<close> for a separator of one code unit, and
  \<^verbatim>\<open>s.includes(t)\<close>.
\<close>

fun split :: "16 word \<Rightarrow> jstring \<Rightarrow> jstring list" where
  "split c [] = [[]]"
| "split c (x # xs) =
     (if x = c then [] # split c xs
      else (case split c xs of [] \<Rightarrow> [[x]] | s # ss \<Rightarrow> (x # s) # ss))"

fun join :: "16 word \<Rightarrow> jstring list \<Rightarrow> jstring" where
  "join c [] = []"
| "join c [s] = s"
| "join c (s # t # ss) = s @ c # join c (t # ss)"

fun contains :: "jstring \<Rightarrow> jstring \<Rightarrow> bool" where
  "contains [] t = (t = [])"
| "contains (x # xs) t = (take (length t) (x # xs) = t \<or> contains xs t)"

text \<open>
  A value read from a request body or query string where the handler expects a string: a
  string, a falsy non-string (\<^verbatim>\<open>undefined\<close>, \<^verbatim>\<open>null\<close>, \<^verbatim>\<open>0\<close>, \<^verbatim>\<open>false\<close>) or a
  truthy non-string. Calling \<^verbatim>\<open>.trim()\<close> on either kind of non-string throws a
  TypeError.
\<close>

datatype jsval = JAbsent | JString jstring | JOther

definition falsy :: "jsval \<Rightarrow> bool" where
  "falsy v = (case v of JAbsent \<Rightarrow> True | JString s \<Rightarrow> s = [] | JOther \<Rightarrow> False)"

definition falsy_str :: "jstring option \<Rightarrow> bool" where
  "falsy_str v = (case v of None \<Rightarrow> True | Some s \<Rightarrow> s = [])"

text \<open>
  Numbers are the integers and \<^verbatim>\<open>NaN\<close> (fractions, infinities and the rounding of
  doubles are left out). A comparison with \<^verbatim>\<open>NaN\<close> is false, arithmetic
  on \<^verbatim>\<open>NaN\<close> gives \<^verbatim>\<open>NaN\<close>, and \<^verbatim>\<open>x || 0\<close> is 0 for a missing field, for 0
  and for \<^verbatim>\<open>NaN\<close>.
\<close>

datatype number = Num int | NaN

definition lt :: "number \<Rightarrow> number \<Rightarrow> bool" where
  "lt a b = (case (a, b) of (Num x, Num y) \<Rightarrow> x < y | _ \<Rightarrow> False)"

definition le :: "number \<Rightarrow> number \<Rightarrow> bool" where
  "le a b = (case (a, b) of (Num x, Num y) \<Rightarrow> x \<le> y | _ \<Rightarrow> False)"

definition sub :: "number \<Rightarrow> number \<Rightarrow> number" where
  "sub a b = (case (a, b) of (Num x, Num y) \<Rightarrow> Num (x - y) | _ \<Rightarrow> NaN)"

definition or_zero :: "number option \<Rightarrow> number" where
  "or_zero v = (case v of Some (Num n) \<Rightarrow> Num n | _ \<Rightarrow> Num 0)"

text \<open>
  The \<^verbatim>\<open>pointsToRedeem\<close> of a request body, as the handler uses it: in the test
  \<^verbatim>\<open>!pointsToRedeem\<close> by its truth value, in \<^verbatim>\<open><=\<close>, \<^verbatim>\<open><\<close> and \<^verbatim>\<open>-\<close> (the
  other operand always being a number) by the number it converts to. \<open>Falsy\<close> is
  \<^verbatim>\<open>undefined\<close>, \<^verbatim>\<open>null\<close>, \<^verbatim>\<open>0\<close>, \<^verbatim>\<open>''\<close>, \<^verbatim>\<open>false\<close>; the number 30 and the
  string \<^verbatim>\<open>'30'\<close> are \<open>Truthy (Num 30)\<close>, the strings \<^verbatim>\<open>'0'\<close> and \<^verbatim>\<open>' '\<close> are
  \<open>Truthy (Num 0)\<close>, and \<^verbatim>\<open>'abc'\<close> is \<open>Truthy NaN\<close>.
\<close>

datatype amount = Falsy | Truthy number

text \<open>
  A JavaScript object used as a dictionary is an association list of its own properties,
  read with \<open>map_of\<close> and written with \<open>AList.update\<close>. A plain object inherits the
  properties of \<^verbatim>\<open>Object.prototype\<close>: \<^verbatim>\<open>obj[name]\<close> is the own property of that
  name if there is one, an inherited function or object (a truthy value without
  \<^verbatim>\<open>used\<close> and \<^verbatim>\<open>limit\<close>) if the name is one of those of \<^verbatim>\<open>Object.prototype\<close>, and
  \<^verbatim>\<open>undefined\<close> otherwise.
\<close>

type_synonym 'v obj = "(jstring \<times> 'v) list"

definition Object_prototype :: "jstring list" where
  "Object_prototype =
     map js [''constructor'', ''__defineGetter__'', ''__defineSetter__'', ''hasOwnProperty'',
             ''__lookupGetter__'', ''__lookupSetter__'', ''isPrototypeOf'',
             ''propertyIsEnumerable'', ''toString'', ''valueOf'', ''__proto__'',
             ''toLocaleString'']"

datatype 'v property = Own 'v | Inherited | Undefined

definition get :: "'v obj \<Rightarrow> jstring \<Rightarrow> 'v property" where
  "get obj name =
     (case map_of obj name of
        Some v \<Rightarrow> Own v
      | None \<Rightarrow> if name \<in> set Object_prototype then Inherited else Undefined)"

section \<open>The month key\<close>

text \<open>
  \<^verbatim>\<open>new Date()\<close> is an input of every handler that reads the clock; the fields are what
  its getters return (\<open>getMonth\<close> counts from 0). The three \<^verbatim>\<open>new Date()\<close> calls of the
  checkout handler are taken at one instant.
  \<^verbatim>\<open>claims_${year}-${(month + 1).toString().padStart(2, "0")}\<close>
\<close>

record date =
  getFullYear :: nat
  getMonth :: nat
  getTime :: int

fun toString :: "nat \<Rightarrow> jstring" where
  "toString n =
     (if n < 10 then [0x30 + of_nat n]
      else toString (n div 10) @ [0x30 + of_nat (n mod 10)])"

declare toString.simps [simp del]

definition padStart2 :: "jstring \<Rightarrow> jstring" where
  "padStart2 s = replicate (2 - length s) 0x30 @ s"

definition claimsKey :: "date \<Rightarrow> jstring" where
  "claimsKey d =
     js ''claims_'' @ toString (getFullYear d) @ js ''-'' @ padStart2 (toString (getMonth d + 1))"

section \<open>Documents\<close>

text \<open>
  The Firestore layout: \<^verbatim>\<open>health_plans/{planId}\<close>, \<^verbatim>\<open>patients/{patientId}\<close> and
  \<^verbatim>\<open>patients/{patientId}/purchases/{auto id}\<close>. The documents have the fields of the
  data model, with integers for the counters and limits. A purchase subcollection is the
  list of its documents in insertion order; a document reference into it is the position.
  It exists independently of the patient document (Firestore allows a subcollection below
  a missing document). The field \<open>nested\<close> of a purchase holds what an update has written
  below an entry of a month map (see \<open>update_claim\<close>): the path below \<^verbatim>\<open>claims\<close> and the
  value. A purchase of the data model has none, and what the handlers would read from a
  document that has some is not modelled.

  Documents are kept under the path of their reference relative to the collection, the
  segments joined by \<^verbatim>\<open>/\<close>: for a document of the collection itself this is its id.
  The limits that the server puts on ids and field names (length, reserved names) are not
  modelled.
\<close>

record claimable_item =
  item_name :: jstring
  item_limit :: int

record plan =
  plan_name :: jstring
  claimable_items :: "claimable_item list"
  stripe_product_id :: jstring
  stripe_price_id :: jstring

record claimDetails =
  used :: int
  limit :: int

datatype status = active | inactive

record purchase =
  health_plan_name :: jstring
  health_plan_id :: jstring
  purchased_at :: int
  stripeCustomerId :: "jstring option"
  subscription_status :: status
  claims :: "claimDetails obj obj"
  nested :: "(jstring list \<times> claimDetails) list"

record patient =
  points :: "number option"
  patient_stripeCustomerId :: "jstring option"
  patient_subscription_status :: "status option"

record db =
  health_plans :: "(jstring \<times> plan) list"
  patients :: "jstring \<rightharpoonup> patient"
  purchases :: "jstring \<Rightarrow> purchase list"

datatype exn = TypeError | InvalidDocumentPath | InvalidFieldPath | NotFoundError

text \<open>
  \<^verbatim>\<open>collection.doc(documentPath)\<close>. The client throws unless the argument is a
  non-empty string without \<^verbatim>\<open>//\<close>; it splits the argument at the slashes, drops the
  empty segments (a leading or a trailing slash) and throws unless the segments, appended
  to the collection, address a document, that is, unless their number is odd.
\<close>

definition doc :: "jstring option \<Rightarrow> exn + jstring" where
  "doc documentPath =
     (case documentPath of
        None \<Rightarrow> Inl InvalidDocumentPath
      | Some p \<Rightarrow>
         if p = [] \<or> contains p (js ''//'') then Inl InvalidDocumentPath
         else (let segments = filter (\<lambda>segment. segment \<noteq> []) (split 0x2F p) in
               if even (length segments) then Inl InvalidDocumentPath
               else Inr (join 0x2F segments)))"

text \<open>\<^verbatim>\<open>ref.update(fields)\<close> on a patient document fails when the document is missing.\<close>

definition update_patient :: "jstring \<Rightarrow> (patient \<Rightarrow> patient) \<Rightarrow> db \<Rightarrow> exn option \<times> db" where
  "update_patient ref f d =
     (case patients d ref of
        None \<Rightarrow> (Some NotFoundError, d)
      | Some p \<Rightarrow> (None, d\<lparr>patients := (patients d)(ref \<mapsto> f p)\<rparr>))"

text \<open>
  \<^verbatim>\<open>.orderBy("purchased_at", "desc")\<close>: the documents with their references, newest
  first. Among documents with equal timestamps Firestore orders by the generated ids;
  here they stay in stored order.
\<close>

definition orderBy_purchased_at_desc :: "purchase list \<Rightarrow> (nat \<times> purchase) list" where
  "orderBy_purchased_at_desc ps = sort_key (\<lambda>(ref, d). - purchased_at d) (enumerate 0 ps)"

text \<open>
  \<^verbatim>\<open>claims[claimsKey] || {}\<close>. The key begins with \<^verbatim>\<open>claims_\<close>, so it is not the
  name of an inherited property.
\<close>

definition claimsForMonth :: "jstring \<Rightarrow> purchase \<Rightarrow> claimDetails obj" where
  "claimsForMonth key d = (case map_of (claims d) key of None \<Rightarrow> [] | Some m \<Rightarrow> m)"

text \<open>
  \<^verbatim>\<open>doc.ref.update({[`claims.${claimsKey}.${claimName}`]: claimDetails})\<close>. The
  interpolated string is a field path: the client throws if it contains \<^verbatim>\<open>..\<close>,
  begins or ends with a dot or contains one of \<^verbatim>\<open>*~/[]\<close>, and splits it at the dots.
  With one segment for the key and one for the name the update sets the entry of that
  name in that month map. A name with a dot gives more segments: the update then sets a
  field further down and leaves the entries of the month map as they are.
\<close>

definition update_claim :: "jstring \<Rightarrow> jstring \<Rightarrow> claimDetails \<Rightarrow> purchase \<Rightarrow> exn + purchase" where
  "update_claim key claimName c d =
     (let fieldPath = js ''claims.'' @ key @ js ''.'' @ claimName in
      if contains fieldPath (js ''..'') \<or> take 1 fieldPath = js ''.'' \<or> last fieldPath = 0x2E \<or>
         list_ex (\<lambda>x. x \<in> set (js ''*~/[]'')) fieldPath
      then Inl InvalidFieldPath
      else (case tl (split 0x2E fieldPath) of
              [month, name] \<Rightarrow>
                Inr (d\<lparr>claims := AList.update month
                                    (AList.update name c (claimsForMonth month d)) (claims d)\<rparr>)
            | segments \<Rightarrow> Inr (d\<lparr>nested := AList.update segments c (nested d)\<rparr>)))"

section \<open>What a handler answers\<close>

text \<open>
  A handler either sends a response (the first \<^verbatim>\<open>res.send\<close>/\<^verbatim>\<open>res.json\<close> is the one
  the client gets; a later one throws) or its promise rejects before any response is
  sent. Message texts are given without their emoji. \<open>ErrorMessage e\<close> is the body
  \<^verbatim>\<open>{error: error.message}\<close> for the exception \<open>e\<close> of the store client.
\<close>

record claimEntry =
  entry_name :: jstring
  entry_used :: int
  entry_limit :: int

datatype body =
    Text string
  | Received
  | ErrorJson string
  | ErrorMessage exn
  | ClaimsJson "claimEntry list" number
  | SessionJson jstring jstring
  | UrlJson jstring

datatype outcome = Responded nat body | Unhandled exn

section \<open>Event ingestion\<close>

record session =
  client_reference_id :: "jstring option"
  metadata_planId :: "jstring option"
  customer :: "jstring option"

record subscription =
  sub_client_reference_id :: "jstring option"
  sub_customer :: jstring
  cancel_at_period_end :: bool

datatype event =
    checkout_session_completed session
  | customer_subscription_updated subscription
  | customer_subscription_deleted subscription
  | other_event jstring

text \<open>
  The \<^verbatim>\<open>reduce\<close> over \<^verbatim>\<open>planData.claimable_items\<close>:
  \<^verbatim>\<open>claims[item.name] = {used: 0, limit: item.limit}\<close>, starting from \<^verbatim>\<open>{}\<close>. For
  the name \<^verbatim>\<open>__proto__\<close> the assignment goes to the setter that the object inherits:
  it replaces the prototype of the object and adds no property, so the map that is
  stored has no entry for such an item.
\<close>

definition initial_claims :: "claimable_item list \<Rightarrow> claimDetails obj" where
  "initial_claims items =
     fold (\<lambda>item acc.
             if item_name item = js ''__proto__'' then acc
             else AList.update (item_name item) \<lparr>used = 0, limit = item_limit item\<rparr> acc)
       items []"

text \<open>
  \<^verbatim>\<open>handleCheckoutSessionCompleted\<close>. A missing plan and a missing patient are logged and
  execution goes on: with no plan, \<^verbatim>\<open>planData\<close> is \<^verbatim>\<open>undefined\<close> and reading
  \<^verbatim>\<open>planData.name\<close> throws; with no patient document the purchase is added all the same.
  The first component is the exception the returned promise rejects with, if any.
\<close>

definition handleCheckoutSessionCompleted :: "date \<Rightarrow> session \<Rightarrow> db \<Rightarrow> exn option \<times> db" where
  "handleCheckoutSessionCompleted now s d =
     (let userId = client_reference_id s;
          planId = metadata_planId s;
          customerId = customer s
      in case doc planId of
           Inl e \<Rightarrow> (Some e, d)
         | Inr planRef \<Rightarrow>
            (let planDoc = map_of (health_plans d) planRef in
             case doc userId of
               Inl e \<Rightarrow> (Some e, d)
             | Inr patientRef \<Rightarrow>
                (let patientDocSnapshot = patients d patientRef in
                 case planDoc of
                   None \<Rightarrow> (Some TypeError, d)
                 | Some planData \<Rightarrow>
                    (None,
                     d\<lparr>purchases := (purchases d)(patientRef :=
                         purchases d patientRef @
                         [\<lparr>health_plan_name = plan_name planData,
                           health_plan_id = planRef,
                           purchased_at = getTime now,
                           stripeCustomerId = customerId,
                           subscription_status = active,
                           claims = [(claimsKey now,
                                      initial_claims (claimable_items planData))],
                           nested = []\<rparr>])\<rparr>))))"

text \<open>
  \<^verbatim>\<open>handleSubscriptionUpdated\<close>: the query
  \<^verbatim>\<open>.where("stripeCustomerId", "==", customerId).limit(1)\<close> on the purchases of
  \<^verbatim>\<open>subscription.client_reference_id\<close>, then an update of
  \<^verbatim>\<open>purchaseDoc.ref.parent.parent\<close>, which is the patient document.
\<close>

definition handleSubscriptionUpdated :: "subscription \<Rightarrow> db \<Rightarrow> exn option \<times> db" where
  "handleSubscriptionUpdated s d =
     (let userId = sub_client_reference_id s;
          customerId = sub_customer s;
          cancelAtPeriodEnd = cancel_at_period_end s
      in case doc userId of
           Inl e \<Rightarrow> (Some e, d)
         | Inr patientRef \<Rightarrow>
            (case find (\<lambda>p. stripeCustomerId p = Some customerId) (purchases d patientRef) of
               None \<Rightarrow> (None, d)
             | Some purchaseDoc \<Rightarrow>
                 if cancelAtPeriodEnd
                 then update_patient patientRef
                        (\<lambda>p. p\<lparr>patient_subscription_status := Some inactive\<rparr>) d
                 else update_patient patientRef
                        (\<lambda>p. p\<lparr>patient_subscription_status := Some active\<rparr>) d))"

definition handleSubscriptionCancellation :: "subscription \<Rightarrow> db \<Rightarrow> exn option \<times> db" where
  "handleSubscriptionCancellation s d = (None, d)"

text \<open>
  \<^verbatim>\<open>stripeWebhook\<close>. \<open>constructEvent\<close> is the result of
  \<^verbatim>\<open>stripe.webhooks.constructEvent\<close>: the error message when verification fails, the
  event otherwise. The handlers are awaited outside any \<^verbatim>\<open>try\<close>, so an exception of
  theirs leaves the request without \<^verbatim>\<open>res.json({received: true})\<close>.
\<close>

definition stripeWebhook :: "date \<Rightarrow> string + event \<Rightarrow> db \<Rightarrow> outcome \<times> db" where
  "stripeWebhook now constructEvent d =
     (case constructEvent of
        Inl message \<Rightarrow> (Responded 400 (Text (''Webhook Error: '' @ message)), d)
      | Inr ev \<Rightarrow>
         (case (case ev of
                  checkout_session_completed s \<Rightarrow> handleCheckoutSessionCompleted now s d
                | customer_subscription_updated s \<Rightarrow> handleSubscriptionUpdated s d
                | customer_subscription_deleted s \<Rightarrow> handleSubscriptionCancellation s d
                | other_event t \<Rightarrow> (None, d)) of
            (Some e, d') \<Rightarrow> (Unhandled e, d')
          | (None, d') \<Rightarrow> (Responded 200 Received, d')))"

section \<open>Claim API\<close>

text \<open>
  \<^verbatim>\<open>getClaims\<close>. The identifier is rewritten before it is tested, so the test
  \<^verbatim>\<open>!patientId\<close> sees a string that ends in a newline. The rewrite stands outside
  the \<^verbatim>\<open>try\<close>: on a non-string it throws and no response is sent. The document
  reference is made inside the \<^verbatim>\<open>try\<close>: an exception of \<^verbatim>\<open>doc\<close> is answered with
  500.
\<close>

definition getClaims :: "date \<Rightarrow> jsval \<Rightarrow> db \<Rightarrow> outcome \<times> db" where
  "getClaims now query_patientId d =
     (case query_patientId of
        JString s \<Rightarrow>
         (let patientId = trim s @ newline in
          if patientId = [] then (Responded 400 (Text ''Patient ID is required''), d)
          else
           (let key = claimsKey now in
            case doc (Some patientId) of
              Inl error \<Rightarrow> (Responded 500 (Text ''Internal Server Error''), d)
            | Inr patientRef \<Rightarrow>
               (case patients d patientRef of
                  None \<Rightarrow> (Responded 404 (ErrorJson ''Patient not found''), d)
                | Some patientDoc \<Rightarrow>
                   (let pts = or_zero (points patientDoc);
                        snapshot = orderBy_purchased_at_desc (purchases d patientRef);
                        claimsList =
                          fold (\<lambda>(ref, purchaseDoc) claimsList.
                                  fold (\<lambda>(claimName, claimDetails) claimsList.
                                          claimsList @
                                          [\<lparr>entry_name = claimName,
                                            entry_used = used claimDetails,
                                            entry_limit = limit claimDetails\<rparr>])
                                    (claimsForMonth key purchaseDoc) claimsList)
                            snapshot []
                    in (Responded 200 (ClaimsJson claimsList pts), d)))))
      | _ \<Rightarrow> (Unhandled TypeError, d))"

text \<open>
  \<^verbatim>\<open>useClaim\<close>. The callback of \<^verbatim>\<open>snapshot.forEach\<close> is an \<^verbatim>\<open>async\<close> function and
  runs for every purchase of the snapshot; its \<^verbatim>\<open>return res.status(403).send(...)\<close>
  leaves the callback only. Nothing waits for the promise of the callback, so the updates
  are only issued when the handler answers, and an exception inside the callback is
  lost. The state of the loop is the flag \<open>found\<close>, the response sent so far and the
  updates issued: the reference of the document, the name and the value.

  When \<^verbatim>\<open>claimsForCurrentMonth[claimName]\<close> is an inherited property, \<open>found\<close> is set,
  \<^verbatim>\<open>claimDetails.used + 1 > claimDetails.limit\<close> compares \<^verbatim>\<open>NaN\<close> with
  \<^verbatim>\<open>undefined\<close> and is false, the assignment to \<^verbatim>\<open>claimDetails.used\<close> lands on the
  inherited function or object, which is shared by the whole process and which the model
  does not follow, and the update throws or is refused, its value being a function or
  its field name being \<^verbatim>\<open>__proto__\<close>: nothing is written.
\<close>

record loop_state =
  found :: bool
  res :: "(nat \<times> body) option"
  updates :: "(nat \<times> jstring \<times> claimDetails) list"

definition send :: "nat \<Rightarrow> body \<Rightarrow> (nat \<times> body) option \<Rightarrow> (nat \<times> body) option" where
  "send code b r = (case r of None \<Rightarrow> Some (code, b) | Some sent \<Rightarrow> Some sent)"

definition useClaim_callback :: "jstring \<Rightarrow> jstring \<Rightarrow> nat \<times> purchase \<Rightarrow> loop_state \<Rightarrow> loop_state" where
  "useClaim_callback key claimName = (\<lambda>(ref, purchaseDoc) st.
     (let claimsForCurrentMonth = claimsForMonth key purchaseDoc in
      case get claimsForCurrentMonth claimName of
        Undefined \<Rightarrow> st
      | Inherited \<Rightarrow> st\<lparr>found := True\<rparr>
      | Own claimDetails \<Rightarrow>
         (let st = st\<lparr>found := True\<rparr> in
          if used claimDetails + 1 > limit claimDetails
          then st\<lparr>res := send 403 (Text ''Claim limit reached. Cannot redeem anymore.'') (res st)\<rparr>
          else st\<lparr>updates := updates st @
                     [(ref, claimName, claimDetails\<lparr>used := used claimDetails + 1\<rparr>)]\<rparr>)))"

text \<open>
  The response after the loop: when one was sent inside the loop, that one stands
  (the second \<^verbatim>\<open>send\<close> throws, and so does the \<^verbatim>\<open>send\<close> in the \<^verbatim>\<open>catch\<close>).
\<close>

definition final_send :: "nat \<Rightarrow> body \<Rightarrow> (nat \<times> body) option \<Rightarrow> outcome" where
  "final_send code b r =
     (case r of None \<Rightarrow> Responded code b | Some (code', b') \<Rightarrow> Responded code' b')"

text \<open>
  \<open>useClaim_respond\<close> is the handler up to its response: it reads the purchases once, at
  \<^verbatim>\<open>await purchasesRef.get()\<close>, and gives the response, the reference of the patient and
  the updates it has issued. \<open>apply_update\<close> is one of these updates reaching the store: it
  is applied to the document as the store has it then (an update whose field path the
  client refuses was never sent). \<open>useClaim\<close> is a call whose updates all reach the store
  before anything else happens.
\<close>

definition useClaim_respond ::
    "date \<Rightarrow> string \<Rightarrow> jsval \<Rightarrow> jstring option \<Rightarrow> db \<Rightarrow>
     outcome \<times> jstring \<times> (nat \<times> jstring \<times> claimDetails) list" where
  "useClaim_respond now method body_patientId body_claimName d =
     (if method \<noteq> ''POST'' then (Responded 405 (Text ''Method Not Allowed''), [], [])
      else case body_patientId of
        JString s \<Rightarrow>
         (let patientId = trim s @ newline in
          case body_claimName of
            None \<Rightarrow> (Responded 400 (Text ''Patient ID and Claim Name are required''), [], [])
          | Some claimName \<Rightarrow>
             if patientId = [] \<or> claimName = []
             then (Responded 400 (Text ''Patient ID and Claim Name are required''), [], [])
             else
              (let key = claimsKey now in
               case doc (Some patientId) of
                 Inl error \<Rightarrow> (Responded 500 (Text ''Internal Server Error''), [], [])
               | Inr patientRef \<Rightarrow>
                  (let snapshot = orderBy_purchased_at_desc (purchases d patientRef);
                       st = fold (useClaim_callback key claimName) snapshot
                              \<lparr>found = False, res = None, updates = []\<rparr>
                   in if \<not> found st
                      then (final_send 404 (Text ''Claim not found'') (res st),
                            patientRef, updates st)
                      else (final_send 200 (Text ''Claim incremented successfully'') (res st),
                            patientRef, updates st))))
      | _ \<Rightarrow> (Unhandled TypeError, [], []))"

definition apply_update :: "jstring \<Rightarrow> jstring \<Rightarrow> nat \<times> jstring \<times> claimDetails \<Rightarrow> db \<Rightarrow> db" where
  "apply_update key patientRef = (\<lambda>(ref, claimName, claimDetails) d.
     (case update_claim key claimName claimDetails (purchases d patientRef ! ref) of
        Inl error \<Rightarrow> d
      | Inr purchaseDoc \<Rightarrow>
          d\<lparr>purchases := (purchases d)(patientRef :=
               (purchases d patientRef)[ref := purchaseDoc])\<rparr>))"

definition useClaim :: "date \<Rightarrow> string \<Rightarrow> jsval \<Rightarrow> jstring option \<Rightarrow> db \<Rightarrow> outcome \<times> db" where
  "useClaim now method body_patientId body_claimName d =
     (case useClaim_respond now method body_patientId body_claimName d of
        (response, patientRef, issued) \<Rightarrow>
          (response, fold (apply_update (claimsKey now) patientRef) issued d))"

text \<open>
  \<^verbatim>\<open>redeemPoints\<close>. \<open>redeemPoints_read\<close> is the handler up to the update: either the
  response it sends without writing, or the reference of the patient and the balance it
  is about to write, computed from the document that \<^verbatim>\<open>await patientRef.get()\<close> has
  returned. \<open>redeemPoints_update\<close> is the rest: the update, which sets the balance to that
  value whatever the store holds by then, and the response. \<open>redeemPoints\<close> is a call
  during which nothing else touches the store.
\<close>

definition redeemPoints_read ::
    "string \<Rightarrow> jsval \<Rightarrow> amount \<Rightarrow> db \<Rightarrow> outcome + jstring \<times> number" where
  "redeemPoints_read method body_patientId body_pointsToRedeem d =
     (if method \<noteq> ''POST'' then Inl (Responded 405 (Text ''Method Not Allowed''))
      else case body_patientId of
        JString s \<Rightarrow>
         (let patientId = trim s @ newline in
          case body_pointsToRedeem of
            Falsy \<Rightarrow> Inl (Responded 400 (Text ''Invalid data provided''))
          | Truthy pointsToRedeem \<Rightarrow>
             if patientId = [] \<or> le pointsToRedeem (Num 0)
             then Inl (Responded 400 (Text ''Invalid data provided''))
             else
              (case doc (Some patientId) of
                 Inl error \<Rightarrow> Inl (Responded 500 (Text ''Internal Server Error''))
               | Inr patientRef \<Rightarrow>
                  (case patients d patientRef of
                     None \<Rightarrow> Inl (Responded 404 (Text ''Patient not found''))
                   | Some patientDoc \<Rightarrow>
                      (let currentPoints = or_zero (points patientDoc) in
                       if lt currentPoints pointsToRedeem
                       then Inl (Responded 400 (Text ''Not enough points to redeem''))
                       else Inr (patientRef, sub currentPoints pointsToRedeem)))))
      | _ \<Rightarrow> Inl (Unhandled TypeError))"

definition redeemPoints_update :: "jstring \<times> number \<Rightarrow> db \<Rightarrow> outcome \<times> db" where
  "redeemPoints_update = (\<lambda>(patientRef, newPoints) d.
     (case update_patient patientRef (\<lambda>p. p\<lparr>points := Some newPoints\<rparr>) d of
        (Some error, d') \<Rightarrow> (Responded 500 (Text ''Internal Server Error''), d')
      | (None, d') \<Rightarrow> (Responded 200 (Text ''Points redeemed successfully''), d')))"

definition redeemPoints :: "string \<Rightarrow> jsval \<Rightarrow> amount \<Rightarrow> db \<Rightarrow> outcome \<times> db" where
  "redeemPoints method body_patientId body_pointsToRedeem d =
     (case redeemPoints_read method body_patientId body_pointsToRedeem d of
        Inl response \<Rightarrow> (response, d)
      | Inr write \<Rightarrow> redeemPoints_update write d)"

section \<open>Checkout and portal sessions\<close>

text \<open>
  The two calls to the payment provider are parameters: each returns the error message
  of a failed call or the fields of the created session that the handler reads.
  \<open>stripe_checkout customer price client_reference_id planId\<close> is
  \<^verbatim>\<open>stripe.checkout.sessions.create\<close>, \<open>stripe_portal customer\<close> is
  \<^verbatim>\<open>stripe.billingPortal.sessions.create\<close>. Both handlers run inside a \<^verbatim>\<open>try\<close>
  whose \<^verbatim>\<open>catch\<close> answers 500.
\<close>

type_synonym stripe_checkout =
  "jstring option \<Rightarrow> jstring \<Rightarrow> jstring \<Rightarrow> jstring \<Rightarrow> string + jstring \<times> jstring"

type_synonym stripe_portal = "jstring \<Rightarrow> string + jstring"

definition create_checkout_session ::
    "stripe_checkout \<Rightarrow> jstring option \<Rightarrow> jsval \<Rightarrow> db \<Rightarrow> outcome \<times> db" where
  "create_checkout_session stripe_create body_planId body_userId d =
     (if falsy_str body_planId \<or> falsy body_userId
      then (Responded 400 (ErrorJson ''Missing planId or userId''), d)
      else case body_userId of
        JString s \<Rightarrow>
         (let userId = trim s @ newline in
          case find (\<lambda>(planDocId, p). Some (stripe_product_id p) = body_planId) (health_plans d) of
            None \<Rightarrow> (Responded 400 (ErrorJson ''Invalid plan''), d)
          | Some (planDocId, selectedPlan) \<Rightarrow>
             (case doc (Some userId) of
                Inl error \<Rightarrow> (Responded 500 (ErrorMessage error), d)
              | Inr patientDocRef \<Rightarrow>
                 (case patients d patientDocRef of
                    None \<Rightarrow> (Responded 404 (ErrorJson ''Patient not found''), d)
                  | Some patientDoc \<Rightarrow>
                     (let customerId = patient_stripeCustomerId patientDoc in
                      case (if falsy_str customerId
                            then stripe_create None (stripe_price_id selectedPlan) userId planDocId
                            else stripe_create customerId (stripe_price_id selectedPlan) userId
                                   planDocId) of
                        Inl message \<Rightarrow> (Responded 500 (ErrorJson message), d)
                      | Inr (session_id, session_url) \<Rightarrow>
                          (Responded 200 (SessionJson session_id session_url), d)))))
      | _ \<Rightarrow> (Responded 400 (ErrorJson ''Invalid userId provided''), d))"

definition create_customer_portal ::
    "stripe_portal \<Rightarrow> jsval \<Rightarrow> jstring option \<Rightarrow> db \<Rightarrow> outcome \<times> db" where
  "create_customer_portal stripe_create body_userId body_planId d =
     (case body_userId of
        JString s \<Rightarrow>
         (let userId = trim s @ newline in
          if userId = [] \<or> falsy_str body_planId
          then (Responded 400 (ErrorJson ''Missing userId or planId''), d)
          else
           (case doc (Some userId) of
              Inl error \<Rightarrow> (Responded 500 (ErrorJson ''Failed to create customer portal''), d)
            | Inr patientDocRef \<Rightarrow>
               (case patients d patientDocRef of
                  None \<Rightarrow> (Responded 404 (ErrorJson ''Patient not found''), d)
                | Some patientDoc \<Rightarrow>
                   (let customerId =
                          (case find (\<lambda>p. Some (health_plan_id p) = body_planId)
                                  (purchases d patientDocRef) of
                             Some purchaseData \<Rightarrow> stripeCustomerId purchaseData
                           | None \<Rightarrow> None)
                    in case customerId of
                         None \<Rightarrow>
                           (Responded 400 (ErrorJson ''User does not have a Stripe Customer ID''), d)
                       | Some c \<Rightarrow>
                          if c = []
                          then (Responded 400
                                  (ErrorJson ''User does not have a Stripe Customer ID''), d)
                          else
                           (case stripe_create c of
                              Inl message \<Rightarrow>
                                (Responded 500 (ErrorJson ''Failed to create customer portal''), d)
                            | Inr session_url \<Rightarrow> (Responded 200 (UrlJson session_url), d))))))
      | _ \<Rightarrow> (Responded 500 (ErrorJson ''Failed to create customer portal''), d))"

section \<open>Notions used in the statements\<close>

text \<open>
  What the specification asks of \<^verbatim>\<open>getClaims\<close>, in its own words: for every purchase,
  the value of the claims ledger under the key of the current month, empty if the key is
  absent, flattened into entries \<open>{name, used, limit}\<close>. \<open>newest_first\<close> is the
  purchases in the order of the query, without their references.
\<close>

definition month_entries :: "jstring \<Rightarrow> purchase \<Rightarrow> claimEntry list" where
  "month_entries key p =
     (case map_of (claims p) key of
        None \<Rightarrow> []
      | Some m \<Rightarrow> map (\<lambda>(n, c). \<lparr>entry_name = n, entry_used = used c, entry_limit = limit c\<rparr>) m)"

definition newest_first :: "purchase list \<Rightarrow> purchase list" where
  "newest_first ps = map snd (orderBy_purchased_at_desc ps)"

text \<open>
  Reading a key of the form \<^verbatim>\<open>claims_YYYY-MM\<close> back: the year and the number of the
  month (1 to 12) that it names, if it has that form.
\<close>

definition is_digit :: "16 word \<Rightarrow> bool" where
  "is_digit c \<longleftrightarrow> 0x30 \<le> c \<and> c \<le> 0x39"

definition decimal :: "jstring \<Rightarrow> nat" where
  "decimal s = foldl (\<lambda>n c. 10 * n + (unat c - 48)) 0 s"

definition month_of_key :: "jstring \<Rightarrow> (nat \<times> nat) option" where
  "month_of_key k =
     (let year = takeWhile is_digit (drop 7 k);
          month = drop (8 + length year) k
      in if take 7 k = js ''claims_'' \<and> year \<noteq> [] \<and>
            take 1 (drop (7 + length year) k) = js ''-'' \<and>
            length month = 2 \<and> list_all is_digit month
         then Some (decimal year, decimal month)
         else None)"

section \<open>Example data\<close>

text \<open>
  The scenario of the specification: plan \<open>basic\<close> with the item \<open>dental\<close>, limit 2, and a
  patient stored under the key \<open>u1\<close> followed by a newline, with 50 points.
  \<open>dental_purchase t u\<close> is a purchase of that plan made at time \<open>t\<close> whose January 2025
  counter stands at \<open>u\<close>; \<open>store ps\<close> is the database in which the patient has the
  purchases \<open>ps\<close>, and \<open>store_points n\<close> the one in which the patient has no purchase and
  the balance \<open>n\<close>.
\<close>

definition jan2025 :: date where
  "jan2025 = \<lparr>getFullYear = 2025, getMonth = 0, getTime = 1735700000000\<rparr>"

definition basic_plan :: plan where
  "basic_plan = \<lparr>plan_name = js ''Basic'',
                  claimable_items = [\<lparr>item_name = js ''dental'', item_limit = 2\<rparr>],
                  stripe_product_id = js ''prod_basic'',
                  stripe_price_id = js ''price_basic''\<rparr>"

definition u1 :: jstring where
  "u1 = js ''u1'' @ newline"

definition dental_purchase :: "int \<Rightarrow> int \<Rightarrow> purchase" where
  "dental_purchase t u =
     \<lparr>health_plan_name = js ''Basic'', health_plan_id = js ''basic'', purchased_at = t,
      stripeCustomerId = Some (js ''cus_1''), subscription_status = active,
      claims = [(js ''claims_2025-01'', [(js ''dental'', \<lparr>used = u, limit = 2\<rparr>)])],
      nested = []\<rparr>"

definition patient_u1 :: patient where
  "patient_u1 = \<lparr>points = Some (Num 50), patient_stripeCustomerId = None,
                  patient_subscription_status = None\<rparr>"

definition store :: "purchase list \<Rightarrow> db" where
  "store ps =
     \<lparr>health_plans = [(js ''basic'', basic_plan)],
      patients = [u1 \<mapsto> patient_u1],
      purchases = (\<lambda>_. [])(u1 := ps)\<rparr>"

definition store_points :: "number \<Rightarrow> db" where
  "store_points n = (store [])\<lparr>patients := [u1 \<mapsto> patient_u1\<lparr>points := Some n\<rparr>]\<rparr>"




definition vision_purchase :: purchase where
  "vision_purchase =
     \<lparr>health_plan_name = js ''Plus'', health_plan_id = js ''plus'', purchased_at = 3,
      stripeCustomerId = Some (js ''cus_1''), subscription_status = active,
      claims = [(js ''claims_2024-12'', [(js ''dental'', \<lparr>used = 2, limit = 2\<rparr>)]),
                (js ''claims_2025-01'', [(js ''dental'', \<lparr>used = 1, limit = 2\<rparr>),
                                         (js ''vision'', \<lparr>used = 0, limit = 1\<rparr>)])],
      nested = []\<rparr>"

definition visit_purchase :: "(jstring list \<times> claimDetails) list \<Rightarrow> purchase" where
  "visit_purchase w =
     \<lparr>health_plan_name = js ''Basic'', health_plan_id = js ''basic'', purchased_at = 1,
      stripeCustomerId = Some (js ''cus_1''), subscription_status = active,
      claims = [(js ''claims_2025-01'', [(js ''dr.visit'', \<lparr>used = 0, limit = 1\<rparr>)])],
      nested = w\<rparr>"

definition dec2024 :: date where
  "dec2024 = \<lparr>getFullYear = 2024, getMonth = 11, getTime = 1733000000000\<rparr>"

definition update_event :: subscription where
  "update_event = \<lparr>sub_client_reference_id = None, sub_customer = js ''cus_1'',
                    cancel_at_period_end = True\<rparr>"

definition cancel_event :: subscription where
  "cancel_event = \<lparr>sub_client_reference_id = Some u1, sub_customer = js ''cus_1'',
                    cancel_at_period_end = True\<rparr>"

definition stripe_up :: stripe_checkout where
  "stripe_up = (\<lambda>customer price client_reference_id planId. Inr (js ''cs_1'', js ''checkout''))"

definition portal_up :: stripe_portal where
  "portal_up = (\<lambda>customer. Inr (js ''portal''))"

definition other_store :: db where
  "other_store = (store [])\<lparr>patients := (patients (store []))(js ''u1'' \<mapsto> patient_u1),
                             purchases := (purchases (store []))(js ''u1'' := [dental_purchase 1 0])\<rparr>"

section \<open>Evaluating the example data\<close>

lemma claimsKey_jan2025: "claimsKey jan2025 = js ''claims_2025-01''"
  by (simp add: claimsKey_def jan2025_def js_def toString.simps padStart2_def)

lemma claimsKey_dec2024: "claimsKey dec2024 = js ''claims_2024-12''"
  by (simp add: claimsKey_def dec2024_def js_def toString.simps padStart2_def)

lemma trim_u1: "trim (js ''u1'') @ newline = u1"
  by (simp add: trim_def js_def isWhiteSpace_def u1_def)

lemma doc_u1: "doc (Some u1) = Inr u1"
  by (simp add: doc_def u1_def js_def newline_def Let_def)

lemma dental_nonempty: "js ''dental'' \<noteq> []"
  by (simp add: js_def)

lemma u1_nonempty: "u1 \<noteq> []"
  by (simp add: u1_def newline_def)

lemma purchases_store: "purchases (store ps) u1 = ps"
  by (simp add: store_def)

lemma patients_store: "patients (store ps) u1 = Some patient_u1"
  by (simp add: store_def)

lemma store_update: "(store ps)\<lparr>purchases := (purchases (store ps))(u1 := ps')\<rparr> = store ps'"
  by (simp add: store_def)

lemma trim_spaces_u1: "trim (js '' u1  '') @ newline = u1"
  by (simp add: trim_def js_def isWhiteSpace_def u1_def)

lemma u1_neq: "js ''u1'' \<noteq> u1"
  by (simp add: u1_def js_def newline_def)

lemma get_dental:
  "get [(js ''dental'', c)] (js ''dental'') = Own c"
  by (simp add: get_def)

lemma update_dental:
  "update_claim (js ''claims_2025-01'') (js ''dental'') c (dental_purchase t u) =
     Inr ((dental_purchase t u)\<lparr>claims :=
            [(js ''claims_2025-01'', [(js ''dental'', c)])]\<rparr>)"
  by (simp add: update_claim_def Let_def js_def dental_purchase_def claimsForMonth_def)

lemma dental_purchase_used:
  "(dental_purchase t u)\<lparr>claims :=
      [(js ''claims_2025-01'', [(js ''dental'', \<lparr>used = v, limit = 2\<rparr>)])]\<rparr> = dental_purchase t v"
  by (simp add: dental_purchase_def)

section \<open>Validation of the identifier in getClaims\<close>

text \<open>
  C9. An empty \<open>patientId\<close> should be answered with 400 before the store is read. The
  handler appends the newline before it tests the identifier, so the test never fires: on
  the empty string it reads the patient document keyed by a single newline and answers
  404 (no such patient in the example store); on a missing parameter the rewrite throws
  and no response is sent at all. No request whatsoever is answered with 400.
\<close>

theorem getClaims_empty_id_not_rejected:
  "getClaims jan2025 (JString []) (store []) =
     (Responded 404 (ErrorJson ''Patient not found''), store []) \<and>
   getClaims jan2025 JAbsent (store []) = (Unhandled TypeError, store []) \<and>
   (\<forall>now q d b. fst (getClaims now q d) \<noteq> Responded 400 b)"
  by (simp add: getClaims_def Let_def trim_def newline_def store_def u1_def js_def doc_def
           split: jsval.splits option.splits sum.splits)

section \<open>Acknowledging webhook events\<close>

text \<open>
  C5. A verified event should always be acknowledged, and a checkout whose plan or patient
  is missing should change nothing. In the handler the two misses are logged without a
  \<^verbatim>\<open>return\<close>: for an unknown plan the handler then throws on \<^verbatim>\<open>planData.name\<close> and
  the webhook sends no acknowledgement; for an unknown patient the webhook acknowledges,
  but a purchase has been stored below the missing patient document.
\<close>

theorem webhook_checkout_miss_not_swallowed:
  "stripeWebhook jan2025
     (Inr (checkout_session_completed
        \<lparr>client_reference_id = Some u1, metadata_planId = Some (js ''gold''),
         customer = Some (js ''cus_1'')\<rparr>)) (store []) = (Unhandled TypeError, store []) \<and>
   patients (store []) (js ''ghost'') = None \<and>
   stripeWebhook jan2025
     (Inr (checkout_session_completed
        \<lparr>client_reference_id = Some (js ''ghost''), metadata_planId = Some (js ''basic''),
         customer = Some (js ''cus_1'')\<rparr>)) (store []) =
     (Responded 200 Received,
      (store [])\<lparr>purchases := (purchases (store []))(js ''ghost'' :=
         [(dental_purchase 1735700000000 0)])\<rparr>)"
  by (simp add: stripeWebhook_def handleCheckoutSessionCompleted_def Let_def doc_def store_def
        u1_def newline_def js_def basic_plan_def initial_claims_def dental_purchase_def
        claimsKey_def jan2025_def toString.simps padStart2_def)

section \<open>Consuming a claim\<close>

text \<open>
  C7. A \<^verbatim>\<open>useClaim\<close> that fails should leave the store as it was. The patient has two
  purchases with the claim \<open>dental\<close>: the newer one (time 2), which the query lists first,
  is at its limit, the older one (time 1) is unused. The \<^verbatim>\<open>return\<close> that sends 403 for
  the newer purchase ends the callback only, the loop goes on to the older purchase and
  increments it: the caller is told that the limit is reached and the store has changed.
\<close>

theorem useClaim_limit_reached_mutates:
  "useClaim jan2025 ''POST'' (JString (js ''u1'')) (Some (js ''dental''))
     (store [dental_purchase 1 0, dental_purchase 2 2]) =
     (Responded 403 (Text ''Claim limit reached. Cannot redeem anymore.''),
      store [dental_purchase 1 1, dental_purchase 2 2]) \<and>
   orderBy_purchased_at_desc [dental_purchase 1 0, dental_purchase 2 2] =
     [(1, dental_purchase 2 2), (0, dental_purchase 1 0)] \<and>
   purchases (store [dental_purchase 1 1, dental_purchase 2 2]) u1 \<noteq>
   purchases (store [dental_purchase 1 0, dental_purchase 2 2]) u1"
proof -
  have o: "orderBy_purchased_at_desc [dental_purchase 1 0, dental_purchase 2 2] =
             [(1, dental_purchase 2 2), (0, dental_purchase 1 0)]"
    by (simp add: orderBy_purchased_at_desc_def enumerate_eq_zip upt_rec dental_purchase_def)
  have c: "claimsForMonth (js ''claims_2025-01'') (dental_purchase t u) =
             [(js ''dental'', \<lparr>used = u, limit = 2\<rparr>)]" for t u
    by (simp add: claimsForMonth_def dental_purchase_def)
  have r: "useClaim_respond jan2025 ''POST'' (JString (js ''u1'')) (Some (js ''dental''))
             (store [dental_purchase 1 0, dental_purchase 2 2]) =
           (Responded 403 (Text ''Claim limit reached. Cannot redeem anymore.''), u1,
            [(0, js ''dental'', \<lparr>used = 1, limit = 2\<rparr>)])"
    by (simp add: useClaim_respond_def Let_def claimsKey_jan2025 trim_u1 doc_u1 purchases_store o
          useClaim_callback_def c get_dental send_def final_send_def u1_nonempty dental_nonempty)
  have u: "useClaim jan2025 ''POST'' (JString (js ''u1'')) (Some (js ''dental''))
             (store [dental_purchase 1 0, dental_purchase 2 2]) =
           (Responded 403 (Text ''Claim limit reached. Cannot redeem anymore.''),
            store [dental_purchase 1 1, dental_purchase 2 2])"
    by (simp add: useClaim_def r apply_update_def claimsKey_jan2025 purchases_store
          update_dental dental_purchase_used store_update)
  have n: "dental_purchase 1 1 \<noteq> dental_purchase 1 0"
    by (simp add: dental_purchase_def)
  from u o n show ?thesis by (simp add: purchases_store)
qed

text \<open>
  C2. A successful \<^verbatim>\<open>useClaim\<close> should increment the counter in the first purchase
  that has the claim and change nothing else. The patient has two purchases that both
  have \<open>dental\<close> below its limit. The loop does not stop at the first match: one call,
  answered with 200, increments the counter in both purchases.
\<close>

theorem useClaim_increments_every_match:
  "useClaim jan2025 ''POST'' (JString (js ''u1'')) (Some (js ''dental''))
     (store [dental_purchase 1 0, dental_purchase 2 0]) =
     (Responded 200 (Text ''Claim incremented successfully''),
      store [dental_purchase 1 1, dental_purchase 2 1]) \<and>
   orderBy_purchased_at_desc [dental_purchase 1 0, dental_purchase 2 0] =
     [(1, dental_purchase 2 0), (0, dental_purchase 1 0)] \<and>
   dental_purchase 1 1 \<noteq> dental_purchase 1 0 \<and>
   dental_purchase 2 1 \<noteq> dental_purchase 2 0"
proof -
  have o: "orderBy_purchased_at_desc [dental_purchase 1 0, dental_purchase 2 0] =
             [(1, dental_purchase 2 0), (0, dental_purchase 1 0)]"
    by (simp add: orderBy_purchased_at_desc_def enumerate_eq_zip upt_rec dental_purchase_def)
  have c: "claimsForMonth (js ''claims_2025-01'') (dental_purchase t u) =
             [(js ''dental'', \<lparr>used = u, limit = 2\<rparr>)]" for t u
    by (simp add: claimsForMonth_def dental_purchase_def)
  have r: "useClaim_respond jan2025 ''POST'' (JString (js ''u1'')) (Some (js ''dental''))
             (store [dental_purchase 1 0, dental_purchase 2 0]) =
           (Responded 200 (Text ''Claim incremented successfully''), u1,
            [(1, js ''dental'', \<lparr>used = 1, limit = 2\<rparr>),
             (0, js ''dental'', \<lparr>used = 1, limit = 2\<rparr>)])"
    by (simp add: useClaim_respond_def Let_def claimsKey_jan2025 trim_u1 doc_u1 purchases_store o
          useClaim_callback_def c get_dental send_def final_send_def u1_nonempty dental_nonempty)
  have u: "useClaim jan2025 ''POST'' (JString (js ''u1'')) (Some (js ''dental''))
             (store [dental_purchase 1 0, dental_purchase 2 0]) =
           (Responded 200 (Text ''Claim incremented successfully''),
            store [dental_purchase 1 1, dental_purchase 2 1])"
    by (simp add: useClaim_def r apply_update_def claimsKey_jan2025 purchases_store
          update_dental dental_purchase_used store_update)
  have n: "dental_purchase t 1 \<noteq> dental_purchase t 0" for t
    by (simp add: dental_purchase_def)
  from u o n show ?thesis by simp
qed

section \<open>The limit of a claim\<close>

text \<open>
  C1. Of the calls of \<^verbatim>\<open>useClaim\<close> for one claim with limit \<open>L\<close>, at most \<open>L\<close> should
  succeed. The claim \<open>dental\<close> has the limit 2. A first call is answered with 200 and
  takes the counter to 1. Two more calls then overlap: each reads the purchases while
  the counter stands at 1, so each answers 200 and issues the update that sets the
  counter to 2; the two updates reach the store one after the other and leave it at 2.
  Three calls have succeeded. The handler reads, compares and writes the new value
  without a transaction, and answers before its update is stored.

  Calls that do not overlap exceed the limit as well when the name of the item has a dot:
  the update then goes to a field below the entry, the counter of \<^verbatim>\<open>dr.visit\<close>, limit
  1, stays at 0, and the second call is answered with 200 like the first.
\<close>

theorem useClaim_more_successes_than_limit:
  "useClaim jan2025 ''POST'' (JString (js ''u1'')) (Some (js ''dental''))
     (store [dental_purchase 1 0]) =
     (Responded 200 (Text ''Claim incremented successfully''), store [dental_purchase 1 1]) \<and>
   useClaim_respond jan2025 ''POST'' (JString (js ''u1'')) (Some (js ''dental''))
     (store [dental_purchase 1 1]) =
     (Responded 200 (Text ''Claim incremented successfully''), u1,
      [(0, js ''dental'', \<lparr>used = 2, limit = 2\<rparr>)]) \<and>
   apply_update (claimsKey jan2025) u1 (0, js ''dental'', \<lparr>used = 2, limit = 2\<rparr>)
     (store [dental_purchase 1 1]) = store [dental_purchase 1 2] \<and>
   apply_update (claimsKey jan2025) u1 (0, js ''dental'', \<lparr>used = 2, limit = 2\<rparr>)
     (store [dental_purchase 1 2]) = store [dental_purchase 1 2] \<and>
   useClaim jan2025 ''POST'' (JString (js ''u1'')) (Some (js ''dr.visit''))
     (store [visit_purchase []]) =
     (Responded 200 (Text ''Claim incremented successfully''),
      store [visit_purchase [([js ''claims_2025-01'', js ''dr'', js ''visit''],
                              \<lparr>used = 1, limit = 1\<rparr>)]]) \<and>
   useClaim jan2025 ''POST'' (JString (js ''u1'')) (Some (js ''dr.visit''))
     (store [visit_purchase [([js ''claims_2025-01'', js ''dr'', js ''visit''],
                              \<lparr>used = 1, limit = 1\<rparr>)]]) =
     (Responded 200 (Text ''Claim incremented successfully''),
      store [visit_purchase [([js ''claims_2025-01'', js ''dr'', js ''visit''],
                              \<lparr>used = 1, limit = 1\<rparr>)]])"
proof -
  have c: "claimsForMonth (js ''claims_2025-01'') (dental_purchase t u) =
             [(js ''dental'', \<lparr>used = u, limit = 2\<rparr>)]" for t u
    by (simp add: claimsForMonth_def dental_purchase_def)
  have o: "orderBy_purchased_at_desc [p] = [(0, p)]" for p
    by (simp add: orderBy_purchased_at_desc_def enumerate_eq_zip)
  have r: "useClaim_respond jan2025 ''POST'' (JString (js ''u1'')) (Some (js ''dental''))
             (store [dental_purchase 1 u]) =
           (if 2 < u + 1
            then (Responded 403 (Text ''Claim limit reached. Cannot redeem anymore.''), u1, [])
            else (Responded 200 (Text ''Claim incremented successfully''), u1,
                  [(0, js ''dental'', \<lparr>used = u + 1, limit = 2\<rparr>)]))" for u
    by (simp add: useClaim_respond_def Let_def claimsKey_jan2025 trim_u1 doc_u1 purchases_store o
          useClaim_callback_def c get_dental send_def final_send_def u1_nonempty dental_nonempty)
  have a: "apply_update (claimsKey jan2025) u1 (0, js ''dental'', \<lparr>used = v, limit = 2\<rparr>)
             (store [dental_purchase 1 u]) = store [dental_purchase 1 v]" for u v
    by (simp add: apply_update_def claimsKey_jan2025 purchases_store update_dental
          dental_purchase_used store_update)
  have u: "useClaim jan2025 ''POST'' (JString (js ''u1'')) (Some (js ''dental''))
             (store [dental_purchase 1 0]) =
           (Responded 200 (Text ''Claim incremented successfully''), store [dental_purchase 1 1])"
    by (simp add: useClaim_def r a)
  have vc: "claimsForMonth (js ''claims_2025-01'') (visit_purchase w) =
             [(js ''dr.visit'', \<lparr>used = 0, limit = 1\<rparr>)]" for w
    by (simp add: claimsForMonth_def visit_purchase_def)
  have vr: "useClaim_respond jan2025 ''POST'' (JString (js ''u1'')) (Some (js ''dr.visit''))
             (store [visit_purchase w]) =
           (Responded 200 (Text ''Claim incremented successfully''), u1,
            [(0, js ''dr.visit'', \<lparr>used = 1, limit = 1\<rparr>)])" for w
    by (simp add: useClaim_respond_def Let_def claimsKey_jan2025 trim_u1 doc_u1 purchases_store o
          useClaim_callback_def vc get_def send_def final_send_def u1_nonempty)
       (simp add: js_def)
  have vu: "update_claim (js ''claims_2025-01'') (js ''dr.visit'') \<lparr>used = 1, limit = 1\<rparr>
              (visit_purchase w) =
            Inr (visit_purchase (AList.update [js ''claims_2025-01'', js ''dr'', js ''visit'']
                                   \<lparr>used = 1, limit = 1\<rparr> w))" for w
    by (simp add: update_claim_def Let_def js_def visit_purchase_def)
  have va: "useClaim jan2025 ''POST'' (JString (js ''u1'')) (Some (js ''dr.visit''))
             (store [visit_purchase w]) =
           (Responded 200 (Text ''Claim incremented successfully''),
            store [visit_purchase (AList.update [js ''claims_2025-01'', js ''dr'', js ''visit'']
                                     \<lparr>used = 1, limit = 1\<rparr> w)])" for w
    by (simp add: useClaim_def vr apply_update_def claimsKey_jan2025 purchases_store vu
          store_update)
  from u r [of 1] a [of 2 1] a [of 2 2] va [of "[]"]
       va [of "[([js ''claims_2025-01'', js ''dr'', js ''visit''], \<lparr>used = 1, limit = 1\<rparr>)]"]
  show ?thesis by simp
qed

section \<open>Redeeming points\<close>

text \<open>
  C3. After any redemptions the balance should be the initial balance minus the amounts
  of the successful ones, and never negative. The patient has 50 points and two calls
  redeem 30 each. Both read the patient document before either has written: each finds
  50, passes the check and is about to write 20. The first update sets the balance to 20
  and the call is answered with 200; the second update sets it to 20 again and that call
  is answered with 200 too. Two redemptions of 30 have succeeded and the balance is 20,
  not 50 - 60: the handler reads, checks and writes the new value without a transaction.

  The amount is not checked to be a number either: for the string \<^verbatim>\<open>'abc'\<close> every
  comparison is false, the call is answered with 200 and the balance is \<^verbatim>\<open>NaN\<close>.
\<close>

theorem redeemPoints_overlapping_calls_lose_update:
  "points patient_u1 = Some (Num 50) \<and>
   redeemPoints_read ''POST'' (JString (js ''u1'')) (Truthy (Num 30)) (store []) =
     Inr (u1, Num 20) \<and>
   redeemPoints_update (u1, Num 20) (store []) =
     (Responded 200 (Text ''Points redeemed successfully''), store_points (Num 20)) \<and>
   redeemPoints_update (u1, Num 20) (store_points (Num 20)) =
     (Responded 200 (Text ''Points redeemed successfully''), store_points (Num 20)) \<and>
   redeemPoints ''POST'' (JString (js ''u1'')) (Truthy NaN) (store []) =
     (Responded 200 (Text ''Points redeemed successfully''), store_points NaN)"
  by (simp add: redeemPoints_def redeemPoints_read_def redeemPoints_update_def Let_def trim_u1
        doc_u1 u1_nonempty patients_store patient_u1_def store_points_def store_def
        update_patient_def le_def lt_def sub_def or_zero_def)

section \<open>Subscription updates\<close>

text \<open>
  C6. A \<^verbatim>\<open>customer.subscription.updated\<close> event that cancels at the end of the period
  should set the purchase with the customer reference of the event to \<open>inactive\<close>. The
  handler looks for the purchase below the patient named by
  \<^verbatim>\<open>subscription.client_reference_id\<close>, a field that a subscription does not have (the
  handler's own documentation lists \<^verbatim>\<open>subscription.customer\<close> only): the identifier is
  \<^verbatim>\<open>undefined\<close>, \<^verbatim>\<open>doc\<close> throws, no status is set although the patient has a purchase
  of that customer, and the webhook does not acknowledge the event. When the event does
  name the patient, the handler sets the status of the patient document; the status of
  the purchase stays \<open>active\<close>.
\<close>

theorem subscription_updated_throws_or_leaves_purchase:
  "stripeWebhook jan2025 (Inr (customer_subscription_updated update_event))
     (store [dental_purchase 1 0]) =
     (Unhandled InvalidDocumentPath, store [dental_purchase 1 0]) \<and>
   sub_client_reference_id update_event = None \<and>
   cancel_at_period_end update_event \<and>
   map stripeCustomerId (purchases (store [dental_purchase 1 0]) u1) =
     [Some (sub_customer update_event)] \<and>
   stripeWebhook jan2025 (Inr (customer_subscription_updated cancel_event))
     (store [dental_purchase 1 0]) =
     (Responded 200 Received,
      (store [dental_purchase 1 0])\<lparr>patients :=
         [u1 \<mapsto> patient_u1\<lparr>patient_subscription_status := Some inactive\<rparr>]\<rparr>) \<and>
   map subscription_status
     (purchases ((store [dental_purchase 1 0])\<lparr>patients :=
         [u1 \<mapsto> patient_u1\<lparr>patient_subscription_status := Some inactive\<rparr>]\<rparr>) u1) = [active]"
proof -
  have n: "doc None = Inl InvalidDocumentPath" by (simp add: doc_def)
  show ?thesis
    by (simp add: stripeWebhook_def handleSubscriptionUpdated_def Let_def n doc_u1
          update_event_def cancel_event_def update_patient_def store_def dental_purchase_def)
qed

section \<open>Completing a checkout\<close>


section \<open>Reading the claims\<close>

text \<open>The key that the handlers compute names the year and the month of the clock.\<close>

lemma digit_word:
  assumes "k < 10"
  shows "is_digit (0x30 + of_nat k)" "unat ((0x30 :: 16 word) + of_nat k) - 48 = k"
proof -
  from assms have "k \<in> {0, 1, 2, 3, 4, 5, 6, 7, 8, 9}" by auto
  then show "is_digit (0x30 + of_nat k)" "unat ((0x30 :: 16 word) + of_nat k) - 48 = k"
    by (auto simp: is_digit_def)
qed

lemma toString_digits: "list_all is_digit (toString n)"
proof (induction n rule: toString.induct)
  case (1 n)
  show ?case
  proof (cases "n < 10")
    case True
    then show ?thesis by (subst toString.simps) (simp add: digit_word)
  next
    case False
    with 1 show ?thesis by (subst toString.simps) (simp add: digit_word)
  qed
qed

lemma toString_nonempty: "toString n \<noteq> []"
  by (subst toString.simps) simp

lemma decimal_snoc: "decimal (xs @ [c]) = 10 * decimal xs + (unat c - 48)"
  by (simp add: decimal_def)

lemma decimal_toString: "decimal (toString n) = n"
proof (induction n rule: toString.induct)
  case (1 n)
  show ?case
  proof (cases "n < 10")
    case True
    then show ?thesis by (subst toString.simps) (simp add: decimal_def digit_word)
  next
    case False
    with 1 have "decimal (toString (n div 10)) = n div 10" by simp
    with False show ?thesis
      by (subst toString.simps) (simp add: decimal_snoc digit_word)
  qed
qed

lemma length_toString:
  assumes "n < 100"
  shows "length (toString n) = (if n < 10 then 1 else 2)"
proof (cases "n < 10")
  case True
  then show ?thesis by (subst toString.simps) simp
next
  case False
  from assms have "n div 10 < 10" by simp
  then have "length (toString (n div 10)) = 1" by (subst toString.simps) simp
  with False show ?thesis by (subst toString.simps) simp
qed

lemma decimal_zero: "decimal (0x30 # s) = decimal s"
  by (simp add: decimal_def)

lemma month_digits:
  assumes "m < 12"
  shows "length (padStart2 (toString (m + 1))) = 2"
    "list_all is_digit (padStart2 (toString (m + 1)))"
    "decimal (padStart2 (toString (m + 1))) = m + 1"
proof -
  from assms have l: "length (toString (m + 1)) = (if m + 1 < 10 then 1 else 2)"
    by (intro length_toString) simp
  have z: "is_digit 0x30" by (simp add: is_digit_def)
  from l show "length (padStart2 (toString (m + 1))) = 2"
    by (simp add: padStart2_def)
  show "list_all is_digit (padStart2 (toString (m + 1)))"
    using z toString_digits [of "m + 1"] by (auto simp: padStart2_def list_all_iff)
  from l show "decimal (padStart2 (toString (m + 1))) = m + 1"
    by (cases "m + 1 < 10") (simp_all add: padStart2_def decimal_zero decimal_toString)
qed

lemma month_of_claimsKey:
  assumes "getMonth now < 12"
  shows "month_of_key (claimsKey now) = Some (getFullYear now, getMonth now + 1)"
proof -
  define y where "y = toString (getFullYear now)"
  define m where "m = padStart2 (toString (getMonth now + 1))"
  have k: "claimsKey now = js ''claims_'' @ y @ js ''-'' @ m"
    by (simp add: claimsKey_def y_def m_def)
  have l: "length (js ''claims_'') = 7" by (simp add: js_def)
  have d: "drop 7 (claimsKey now) = y @ js ''-'' @ m" using l by (simp add: k)
  have t: "take 7 (claimsKey now) = js ''claims_''" using l by (simp add: k)
  have yd: "\<And>x. x \<in> set y \<Longrightarrow> is_digit x"
    using toString_digits [of "getFullYear now"] by (simp add: y_def list_all_iff)
  have nd: "\<not> is_digit 0x2D" by (simp add: is_digit_def)
  have tw: "takeWhile is_digit (y @ js ''-'' @ m) = y"
    using yd nd by (simp add: takeWhile_append2 js_def)
  have yn: "y \<noteq> []" by (simp add: y_def toString_nonempty)
  have d7: "drop (7 + length y) (claimsKey now) = js ''-'' @ m" using l by (simp add: k)
  have "drop (8 + length y) (claimsKey now) = drop 1 (drop (7 + length y) (claimsKey now))"
    by (simp only: drop_drop) simp
  then have d8: "drop (8 + length y) (claimsKey now) = m" by (simp add: d7 js_def)
  from month_digits [OF assms] have md: "length m = 2" "list_all is_digit m"
    "decimal m = getMonth now + 1" by (simp_all add: m_def)
  have dy: "decimal y = getFullYear now" by (simp add: y_def decimal_toString)
  show ?thesis
    unfolding month_of_key_def Let_def d tw d7 d8 t
    using yn md dy by (simp add: js_def)
qed

text \<open>The two nested loops of \<^verbatim>\<open>getClaims\<close> build the concatenation of the entries.\<close>

lemma getClaims_db: "snd (getClaims now q d) = d"
  by (simp add: getClaims_def Let_def split: jsval.splits option.splits sum.splits)

lemma fold_push:
  "fold (\<lambda>(claimName, claimDetails) claimsList.
            claimsList @ [\<lparr>entry_name = claimName, entry_used = used claimDetails,
                           entry_limit = limit claimDetails\<rparr>]) m acc =
   acc @ map (\<lambda>(n, c). \<lparr>entry_name = n, entry_used = used c, entry_limit = limit c\<rparr>) m"
  by (induction m arbitrary: acc) (auto split: prod.splits)

lemma month_entries_claimsForMonth:
  "map (\<lambda>(n, c). \<lparr>entry_name = n, entry_used = used c, entry_limit = limit c\<rparr>)
     (claimsForMonth key p) = month_entries key p"
  by (simp add: claimsForMonth_def month_entries_def split: option.splits)

lemma getClaims_fold:
  "fold (\<lambda>(ref, purchaseDoc) claimsList.
           fold (\<lambda>(claimName, claimDetails) claimsList.
                   claimsList @ [\<lparr>entry_name = claimName, entry_used = used claimDetails,
                                  entry_limit = limit claimDetails\<rparr>])
             (claimsForMonth key purchaseDoc) claimsList) xs acc =
   acc @ concat (map (month_entries key) (map snd xs))"
  by (induction xs arbitrary: acc)
     (auto simp: fold_push month_entries_claimsForMonth split: prod.splits)

lemma getClaims_list:
  "fold (\<lambda>(ref, purchaseDoc) claimsList.
           fold (\<lambda>(claimName, claimDetails) claimsList.
                   claimsList @ [\<lparr>entry_name = claimName, entry_used = used claimDetails,
                                  entry_limit = limit claimDetails\<rparr>])
             (claimsForMonth key purchaseDoc) claimsList)
     (orderBy_purchased_at_desc ps) [] =
   concat (map (month_entries key) (newest_first ps))"
  by (simp only: getClaims_fold newest_first_def append_Nil)

lemma mset_newest_first: "mset (newest_first ps) = mset ps"
proof -
  have "mset (newest_first ps) = image_mset snd (mset (enumerate 0 ps))"
    by (simp add: newest_first_def orderBy_purchased_at_desc_def)
  also have "\<dots> = mset (map snd (enumerate 0 ps))" by (simp only: mset_map)
  also have "\<dots> = mset ps" by (simp only: map_snd_enumerate)
  finally show ?thesis .
qed

lemma sorted_newest_first: "sorted (map (\<lambda>p. - purchased_at p) (newest_first ps))"
proof -
  have "sorted (map (\<lambda>(ref, d). - purchased_at d) (orderBy_purchased_at_desc ps))"
    unfolding orderBy_purchased_at_desc_def by (rule sorted_sort_key)
  moreover have "map (\<lambda>(ref, d). - purchased_at d) (orderBy_purchased_at_desc ps) =
                 map (\<lambda>p. - purchased_at p) (newest_first ps)"
    by (simp add: newest_first_def case_prod_beta)
  ultimately show ?thesis by simp
qed

text \<open>
  C8. \<^verbatim>\<open>getClaims\<close> returns the store it was given, whatever the request. For a
  patient that exists, with purchases of the data model, it answers 200 with the points
  balance (0 when the document has none) and with the entries \<open>{name, used, limit}\<close> that
  the ledgers of the purchases of the patient hold under the key of the current month,
  purchase after purchase, newest first; a purchase without the key contributes no entry
  (and, the store being unchanged, the key is not created). The order of the query is a
  rearrangement of the stored purchases by descending time of purchase, and the key names
  the year and the month of the clock.
\<close>

theorem getClaims_read_only:
  "snd (getClaims now q d) = d \<and>
   (doc (Some (trim s @ newline)) = Inr k \<and> patients d k = Some pat \<and>
    list_all (\<lambda>p. nested p = []) (purchases d k) \<longrightarrow>
      fst (getClaims now (JString s) d) =
        Responded 200
          (ClaimsJson
             (concat (map (month_entries (claimsKey now)) (newest_first (purchases d k))))
             (case points pat of Some (Num n) \<Rightarrow> Num n | _ \<Rightarrow> Num 0))) \<and>
   (map_of (claims p) key = None \<longrightarrow> month_entries key p = []) \<and>
   mset (newest_first ps) = mset ps \<and>
   sorted (map (\<lambda>p. - purchased_at p) (newest_first ps)) \<and>
   (getMonth now < 12 \<longrightarrow>
      month_of_key (claimsKey now) = Some (getFullYear now, getMonth now + 1))"
proof (intro conjI impI)
  show "snd (getClaims now q d) = d" by (rule getClaims_db)
next
  assume a: "doc (Some (trim s @ newline)) = Inr k \<and> patients d k = Some pat \<and>
    list_all (\<lambda>p. nested p = []) (purchases d k)"
  have n: "trim s @ newline \<noteq> []" by (simp add: newline_def)
  from a n show "fst (getClaims now (JString s) d) =
        Responded 200
          (ClaimsJson
             (concat (map (month_entries (claimsKey now)) (newest_first (purchases d k))))
             (case points pat of Some (Num n) \<Rightarrow> Num n | _ \<Rightarrow> Num 0))"
    by (simp add: getClaims_def Let_def getClaims_list or_zero_def)
next
  assume "map_of (claims p) key = None"
  then show "month_entries key p = []" by (simp add: month_entries_def)
next
  show "mset (newest_first ps) = mset ps" by (rule mset_newest_first)
next
  show "sorted (map (\<lambda>p. - purchased_at p) (newest_first ps))" by (rule sorted_newest_first)
next
  assume "getMonth now < 12"
  then show "month_of_key (claimsKey now) = Some (getFullYear now, getMonth now + 1)"
    by (rule month_of_claimsKey)
qed

text \<open>
  C8 on an example: two purchases, the newer one with two items in its January map and
  one in its December map, the older one with one item in January and no map for
  December, read in January 2025 and in December 2024.
\<close>

theorem getClaims_read_only_witness:
  "doc (Some (trim (js ''u1'') @ newline)) = Inr u1 \<and>
   patients (store [dental_purchase 1 0, vision_purchase]) u1 = Some patient_u1 \<and>
   list_all (\<lambda>p. nested p = []) (purchases (store [dental_purchase 1 0, vision_purchase]) u1) \<and>
   getClaims jan2025 (JString (js ''u1'')) (store [dental_purchase 1 0, vision_purchase]) =
     (Responded 200
        (ClaimsJson [\<lparr>entry_name = js ''dental'', entry_used = 1, entry_limit = 2\<rparr>,
                     \<lparr>entry_name = js ''vision'', entry_used = 0, entry_limit = 1\<rparr>,
                     \<lparr>entry_name = js ''dental'', entry_used = 0, entry_limit = 2\<rparr>] (Num 50)),
      store [dental_purchase 1 0, vision_purchase]) \<and>
   getClaims dec2024 (JString (js ''u1'')) (store [dental_purchase 1 0, vision_purchase]) =
     (Responded 200
        (ClaimsJson [\<lparr>entry_name = js ''dental'', entry_used = 2, entry_limit = 2\<rparr>] (Num 50)),
      store [dental_purchase 1 0, vision_purchase]) \<and>
   map_of (claims (dental_purchase 1 0)) (js ''claims_2024-12'') = None \<and>
   month_entries (js ''claims_2024-12'') (dental_purchase 1 0) = [] \<and>
   newest_first [dental_purchase 1 0, vision_purchase] = [vision_purchase, dental_purchase 1 0] \<and>
   getMonth jan2025 < 12 \<and> month_of_key (claimsKey jan2025) = Some (2025, 1) \<and>
   getMonth dec2024 < 12 \<and> month_of_key (claimsKey dec2024) = Some (2024, 12) \<and>
   claimsKey jan2025 = js ''claims_2025-01'' \<and> claimsKey dec2024 = js ''claims_2024-12''"
proof -
  have h: "doc (Some (trim (js ''u1'') @ newline)) = Inr u1"
    "patients (store [dental_purchase 1 0, vision_purchase]) u1 = Some patient_u1"
    "list_all (\<lambda>p. nested p = []) (purchases (store [dental_purchase 1 0, vision_purchase]) u1)"
    by (simp_all add: trim_u1 doc_u1 patients_store purchases_store dental_purchase_def
          vision_purchase_def)
  have m: "map_of (claims (dental_purchase 1 0)) (js ''claims_2024-12'') = None"
    by (simp add: dental_purchase_def js_def)
  have n: "newest_first [dental_purchase 1 0, vision_purchase] =
             [vision_purchase, dental_purchase 1 0]"
    by (simp add: newest_first_def orderBy_purchased_at_desc_def enumerate_eq_zip upt_rec
          dental_purchase_def vision_purchase_def)
  have e: "month_entries (js ''claims_2025-01'') (dental_purchase 1 0) =
             [\<lparr>entry_name = js ''dental'', entry_used = 0, entry_limit = 2\<rparr>]"
    "month_entries (js ''claims_2025-01'') vision_purchase =
             [\<lparr>entry_name = js ''dental'', entry_used = 1, entry_limit = 2\<rparr>,
              \<lparr>entry_name = js ''vision'', entry_used = 0, entry_limit = 1\<rparr>]"
    "month_entries (js ''claims_2024-12'') vision_purchase =
             [\<lparr>entry_name = js ''dental'', entry_used = 2, entry_limit = 2\<rparr>]"
    "month_entries (js ''claims_2024-12'') (dental_purchase 1 0) = []"
    by (simp_all add: month_entries_def dental_purchase_def vision_purchase_def js_def)
  have g: "getMonth jan2025 < 12" "getMonth dec2024 < 12"
    "getFullYear jan2025 = 2025" "getMonth jan2025 = 0"
    "getFullYear dec2024 = 2024" "getMonth dec2024 = 11"
    by (simp_all add: jan2025_def dec2024_def)
  note J = getClaims_read_only
         [of jan2025 "JString (js ''u1'')" "store [dental_purchase 1 0, vision_purchase]"
             "js ''u1''" u1 patient_u1 "dental_purchase 1 0" "js ''claims_2024-12''"
             "[dental_purchase 1 0, vision_purchase]"]
  note D = getClaims_read_only
         [of dec2024 "JString (js ''u1'')" "store [dental_purchase 1 0, vision_purchase]"
             "js ''u1''" u1 patient_u1 "dental_purchase 1 0" "js ''claims_2024-12''"
             "[dental_purchase 1 0, vision_purchase]"]
  from J D h m g show ?thesis
    by (simp add: prod_eq_iff purchases_store claimsKey_jan2025 claimsKey_dec2024 n e
          patient_u1_def)
qed

section \<open>The key a request resolves to\<close>

text \<open>An identifier without a slash is a path of one segment: the key is the identifier.\<close>

lemma split_no_separator: "c \<notin> set p \<Longrightarrow> split c p = [p]"
  by (induction p) auto

lemma contains_pair: "contains p [a, b] \<Longrightarrow> a \<in> set p"
  by (induction p) auto

lemma doc_no_slash:
  assumes "0x2F \<notin> set p" "p \<noteq> []"
  shows "doc (Some p) = Inr p"
proof -
  have "js ''//'' = [0x2F, 0x2F]" by (simp add: js_def)
  with assms(1) contains_pair [of p "0x2F" "0x2F"] have "\<not> contains p (js ''//'')" by auto
  with assms show ?thesis by (simp add: doc_def Let_def split_no_separator)
qed

lemma set_trim: "x \<in> set (trim s) \<Longrightarrow> x \<in> set s"
  unfolding trim_def by (auto dest!: set_dropWhileD)

lemma key_no_slash:
  assumes "0x2F \<notin> set s"
  shows "doc (Some (trim s @ newline)) = Inr (trim s @ newline)"
proof -
  from assms set_trim [of "0x2F" s] have "0x2F \<notin> set (trim s @ newline)"
    by (auto simp: newline_def)
  then show ?thesis by (rule doc_no_slash) (simp add: newline_def)
qed

lemma trim_all_whitespace:
  assumes "list_all isWhiteSpace s"
  shows "trim s = []"
proof -
  from assms have h: "dropWhile isWhiteSpace (rev s) = []"
    by (simp add: list_all_iff)
  show ?thesis unfolding trim_def h by simp
qed

text \<open>
  What each entry point reads and writes, given the key \<open>k\<close> that \<^verbatim>\<open>doc\<close> makes of the
  rewritten identifier.
\<close>

lemma getClaims_reads:
  assumes "doc (Some (trim s @ newline)) = Inr k"
    "patients d' k = patients d k" "purchases d' k = purchases d k"
  shows "fst (getClaims now (JString s) d') = fst (getClaims now (JString s) d)"
  using assms by (simp add: getClaims_def Let_def split: option.splits)

lemma redeemPoints_reads:
  assumes "doc (Some (trim s @ newline)) = Inr k" "patients d' k = patients d k"
  shows "fst (redeemPoints m (JString s) a d') = fst (redeemPoints m (JString s) a d)"
  using assms
  by (simp add: redeemPoints_def redeemPoints_read_def redeemPoints_update_def
        update_patient_def Let_def split: option.splits amount.splits)

lemma useClaim_reads:
  assumes "doc (Some (trim s @ newline)) = Inr k" "purchases d' k = purchases d k"
  shows "fst (useClaim now m (JString s) cn d') = fst (useClaim now m (JString s) cn d)"
  using assms by (simp add: useClaim_def useClaim_respond_def Let_def split: option.splits)

lemma create_checkout_session_reads:
  assumes "doc (Some (trim s @ newline)) = Inr k" "health_plans d' = health_plans d"
    "patients d' k = patients d k"
  shows "fst (create_checkout_session f pl (JString s) d') =
         fst (create_checkout_session f pl (JString s) d)"
  using assms
  by (simp add: create_checkout_session_def Let_def split: option.splits sum.splits prod.splits)

lemma create_customer_portal_reads:
  assumes "doc (Some (trim s @ newline)) = Inr k"
    "patients d' k = patients d k" "purchases d' k = purchases d k"
  shows "fst (create_customer_portal g (JString s) pl d') =
         fst (create_customer_portal g (JString s) pl d)"
  using assms
  by (simp add: create_customer_portal_def Let_def split: option.splits sum.splits)

lemma apply_update_purchases:
  "k' \<noteq> k \<Longrightarrow> purchases (apply_update key k u d) k' = purchases d k'"
  by (cases u) (simp add: apply_update_def split: sum.splits)

lemma fold_apply_update_purchases:
  "k' \<noteq> k \<Longrightarrow> purchases (fold (apply_update key k) us d) k' = purchases d k'"
  by (induction us arbitrary: d) (simp_all add: apply_update_purchases)

lemma useClaim_writes:
  assumes "doc (Some (trim s @ newline)) = Inr k" "k' \<noteq> k"
  shows "purchases (snd (useClaim now m (JString s) cn d)) k' = purchases d k'"
  using assms
  by (simp add: useClaim_def useClaim_respond_def Let_def fold_apply_update_purchases
        split: option.splits)

lemma redeemPoints_writes:
  assumes "doc (Some (trim s @ newline)) = Inr k" "k' \<noteq> k"
  shows "patients (snd (redeemPoints m (JString s) a d)) k' = patients d k'"
  using assms
  by (simp add: redeemPoints_def redeemPoints_read_def redeemPoints_update_def
        update_patient_def Let_def split: option.splits amount.splits)

lemma getClaims_found:
  assumes "doc (Some (trim s @ newline)) = Inr k"
  shows "fst (getClaims now (JString s) d) = Responded 200 b \<Longrightarrow> patients d k \<noteq> None"
    "fst (getClaims now (JString s) d) = Responded 404 (ErrorJson ''Patient not found'') \<Longrightarrow>
     patients d k = None"
  using assms by (auto simp: getClaims_def Let_def newline_def split: option.splits)

lemma redeemPoints_found:
  assumes "doc (Some (trim s @ newline)) = Inr k"
  shows "fst (redeemPoints m (JString s) a d) = Responded 200 b \<Longrightarrow> patients d k \<noteq> None"
    "fst (redeemPoints m (JString s) a d) = Responded 404 (Text ''Patient not found'') \<Longrightarrow>
     patients d k = None"
  using assms
  by (auto simp: redeemPoints_def redeemPoints_read_def redeemPoints_update_def
        update_patient_def Let_def newline_def split: option.splits amount.splits if_splits)

lemma create_checkout_session_found:
  assumes "doc (Some (trim s @ newline)) = Inr k"
  shows "fst (create_checkout_session f pl (JString s) d) = Responded 200 b \<Longrightarrow>
         patients d k \<noteq> None"
    "fst (create_checkout_session f pl (JString s) d) =
       Responded 404 (ErrorJson ''Patient not found'') \<Longrightarrow> patients d k = None"
  using assms
  by (auto simp: create_checkout_session_def Let_def newline_def
        split: option.splits sum.splits prod.splits if_splits)

lemma create_customer_portal_found:
  assumes "doc (Some (trim s @ newline)) = Inr k"
  shows "fst (create_customer_portal g (JString s) pl d) = Responded 200 b \<Longrightarrow>
         patients d k \<noteq> None"
    "fst (create_customer_portal g (JString s) pl d) =
       Responded 404 (ErrorJson ''Patient not found'') \<Longrightarrow> patients d k = None"
  using assms
  by (auto simp: create_customer_portal_def Let_def newline_def
        split: option.splits sum.splits if_splits)

text \<open>
  C10, as stated, fails for an identifier with a slash, which the store client reads as
  a path. For \<^verbatim>\<open>a/b\<close> the path has two segments and does not address a document:
  \<^verbatim>\<open>doc\<close> throws and the request is answered with 500, no document having been looked
  up. For \<^verbatim>\<open>/u1\<close> the leading slash is dropped: the document looked up is the one of
  the patient \<open>u1\<close>, and the request succeeds although no document is stored under the
  trimmed identifier followed by a newline.
\<close>

theorem id_with_slash_counterexample:
  "doc (Some (trim (js ''a/b'') @ newline)) = Inl InvalidDocumentPath \<and>
   getClaims jan2025 (JString (js ''a/b'')) (store []) =
     (Responded 500 (Text ''Internal Server Error''), store []) \<and>
   doc (Some (trim (js ''/u1'') @ newline)) = Inr u1 \<and>
   trim (js ''/u1'') @ newline \<noteq> u1 \<and>
   patients (store []) (trim (js ''/u1'') @ newline) = None \<and>
   getClaims jan2025 (JString (js ''/u1'')) (store []) =
     (Responded 200 (ClaimsJson [] (Num 50)), store [])"
proof -
  have t: "trim (js ''a/b'') @ newline = js ''a/b'' @ newline"
    "trim (js ''/u1'') @ newline = js ''/u1'' @ newline"
    by (simp_all add: trim_def js_def isWhiteSpace_def)
  have a: "doc (Some (js ''a/b'' @ newline)) = Inl InvalidDocumentPath"
    by (simp add: doc_def js_def newline_def Let_def)
  have u: "doc (Some (js ''/u1'' @ newline)) = Inr u1"
    by (simp add: doc_def js_def newline_def Let_def u1_def)
  have n: "js ''/u1'' @ newline \<noteq> u1" "js ''/u1'' @ newline \<noteq> []" "js ''a/b'' @ newline \<noteq> []"
    by (simp_all add: js_def u1_def newline_def)
  have p: "patients (store []) (js ''/u1'' @ newline) = None"
    using n by (simp add: store_def)
  have o: "orderBy_purchased_at_desc [] = []"
    by (simp add: orderBy_purchased_at_desc_def enumerate_eq_zip)
  have g1: "getClaims jan2025 (JString (js ''a/b'')) (store []) =
              (Responded 500 (Text ''Internal Server Error''), store [])"
    using n by (simp add: getClaims_def Let_def t a)
  have g2: "getClaims jan2025 (JString (js ''/u1'')) (store []) =
              (Responded 200 (ClaimsJson [] (Num 50)), store [])"
    using n by (simp add: getClaims_def Let_def t u patients_store purchases_store o
                  patient_u1_def or_zero_def)
  from a u n p g1 g2 show ?thesis by (simp only: t simp_thms)
qed

text \<open>
  C10. For every string \<open>s\<close> without a slash that is sent as identifier, the five entry
  points work on the document keyed by \<open>trim s\<close> followed by a newline: \<^verbatim>\<open>doc\<close> makes
  that key of the rewritten identifier, the key ends in a newline, and it is the newline
  alone when \<open>s\<close> consists of white space. Their answers are the same on two stores that
  agree on the plans and on the patient document and the purchases under that key,
  whatever the stores hold elsewhere, and what \<^verbatim>\<open>useClaim\<close> and \<^verbatim>\<open>redeemPoints\<close>
  write, they write under that key. An entry point that loads the patient succeeds only
  if a patient document is stored under that key, and answers ``Patient not found'' only
  if none is.
\<close>

theorem id_normalisation:
  "0x2F \<notin> set s \<longrightarrow>
   doc (Some (trim s @ newline)) = Inr (trim s @ newline) \<and>
   last (trim s @ newline) = 0x0A \<and>
   (list_all isWhiteSpace s \<longrightarrow> trim s @ newline = newline) \<and>
   (health_plans d' = health_plans d \<and>
    patients d' (trim s @ newline) = patients d (trim s @ newline) \<and>
    purchases d' (trim s @ newline) = purchases d (trim s @ newline) \<longrightarrow>
      fst (create_checkout_session f pl (JString s) d') =
        fst (create_checkout_session f pl (JString s) d) \<and>
      fst (create_customer_portal g (JString s) pl' d') =
        fst (create_customer_portal g (JString s) pl' d) \<and>
      fst (getClaims now (JString s) d') = fst (getClaims now (JString s) d) \<and>
      fst (useClaim now m (JString s) cn d') = fst (useClaim now m (JString s) cn d) \<and>
      fst (redeemPoints m (JString s) a d') = fst (redeemPoints m (JString s) a d)) \<and>
   (k \<noteq> trim s @ newline \<longrightarrow>
      purchases (snd (useClaim now m (JString s) cn d)) k = purchases d k \<and>
      patients (snd (redeemPoints m (JString s) a d)) k = patients d k) \<and>
   ((\<exists>b. fst (create_checkout_session f pl (JString s) d) = Responded 200 b) \<longrightarrow>
      patients d (trim s @ newline) \<noteq> None) \<and>
   ((\<exists>b. fst (create_customer_portal g (JString s) pl' d) = Responded 200 b) \<longrightarrow>
      patients d (trim s @ newline) \<noteq> None) \<and>
   ((\<exists>b. fst (getClaims now (JString s) d) = Responded 200 b) \<longrightarrow>
      patients d (trim s @ newline) \<noteq> None) \<and>
   ((\<exists>b. fst (redeemPoints m (JString s) a d) = Responded 200 b) \<longrightarrow>
      patients d (trim s @ newline) \<noteq> None) \<and>
   (fst (create_checkout_session f pl (JString s) d) =
      Responded 404 (ErrorJson ''Patient not found'') \<longrightarrow>
      patients d (trim s @ newline) = None) \<and>
   (fst (create_customer_portal g (JString s) pl' d) =
      Responded 404 (ErrorJson ''Patient not found'') \<longrightarrow>
      patients d (trim s @ newline) = None) \<and>
   (fst (getClaims now (JString s) d) = Responded 404 (ErrorJson ''Patient not found'') \<longrightarrow>
      patients d (trim s @ newline) = None) \<and>
   (fst (redeemPoints m (JString s) a d) = Responded 404 (Text ''Patient not found'') \<longrightarrow>
      patients d (trim s @ newline) = None)"
proof (intro impI)
  assume "0x2F \<notin> set s"
  then have dk: "doc (Some (trim s @ newline)) = Inr (trim s @ newline)" by (rule key_no_slash)
  have 1: "last (trim s @ newline) = 0x0A" by (simp add: newline_def)
  have 2: "list_all isWhiteSpace s \<longrightarrow> trim s @ newline = newline"
    by (simp add: trim_all_whitespace)
  have 3: "health_plans d' = health_plans d \<and>
    patients d' (trim s @ newline) = patients d (trim s @ newline) \<and>
    purchases d' (trim s @ newline) = purchases d (trim s @ newline) \<longrightarrow>
      fst (create_checkout_session f pl (JString s) d') =
        fst (create_checkout_session f pl (JString s) d) \<and>
      fst (create_customer_portal g (JString s) pl' d') =
        fst (create_customer_portal g (JString s) pl' d) \<and>
      fst (getClaims now (JString s) d') = fst (getClaims now (JString s) d) \<and>
      fst (useClaim now m (JString s) cn d') = fst (useClaim now m (JString s) cn d) \<and>
      fst (redeemPoints m (JString s) a d') = fst (redeemPoints m (JString s) a d)"
    using create_checkout_session_reads [OF dk, of d' d f pl]
      create_customer_portal_reads [OF dk, of d' d g pl']
      getClaims_reads [OF dk, of d' d now] useClaim_reads [OF dk, of d' d now m cn]
      redeemPoints_reads [OF dk, of d' d m a]
    by blast
  have 4: "k \<noteq> trim s @ newline \<longrightarrow>
      purchases (snd (useClaim now m (JString s) cn d)) k = purchases d k \<and>
      patients (snd (redeemPoints m (JString s) a d)) k = patients d k"
    using useClaim_writes [OF dk, of k now m cn d] redeemPoints_writes [OF dk, of k m a d]
    by blast
  have 5: "(\<exists>b. fst (create_checkout_session f pl (JString s) d) = Responded 200 b) \<longrightarrow>
      patients d (trim s @ newline) \<noteq> None"
    using create_checkout_session_found(1) [OF dk] by blast
  have 6: "(\<exists>b. fst (create_customer_portal g (JString s) pl' d) = Responded 200 b) \<longrightarrow>
      patients d (trim s @ newline) \<noteq> None"
    using create_customer_portal_found(1) [OF dk] by blast
  have 7: "(\<exists>b. fst (getClaims now (JString s) d) = Responded 200 b) \<longrightarrow>
      patients d (trim s @ newline) \<noteq> None"
    using getClaims_found(1) [OF dk] by blast
  have 8: "(\<exists>b. fst (redeemPoints m (JString s) a d) = Responded 200 b) \<longrightarrow>
      patients d (trim s @ newline) \<noteq> None"
    using redeemPoints_found(1) [OF dk] by blast
  have 9: "fst (create_checkout_session f pl (JString s) d) =
      Responded 404 (ErrorJson ''Patient not found'') \<longrightarrow>
      patients d (trim s @ newline) = None"
    using create_checkout_session_found(2) [OF dk] by blast
  have 10: "fst (create_customer_portal g (JString s) pl' d) =
      Responded 404 (ErrorJson ''Patient not found'') \<longrightarrow>
      patients d (trim s @ newline) = None"
    using create_customer_portal_found(2) [OF dk] by blast
  have 11: "fst (getClaims now (JString s) d) = Responded 404 (ErrorJson ''Patient not found'') \<longrightarrow>
      patients d (trim s @ newline) = None"
    using getClaims_found(2) [OF dk] by blast
  have 12: "fst (redeemPoints m (JString s) a d) = Responded 404 (Text ''Patient not found'') \<longrightarrow>
      patients d (trim s @ newline) = None"
    using redeemPoints_found(2) [OF dk] by blast
  from dk 1 2 3 4 5 6 7 8 9 10 11 12
  show "doc (Some (trim s @ newline)) = Inr (trim s @ newline) \<and>
   last (trim s @ newline) = 0x0A \<and>
   (list_all isWhiteSpace s \<longrightarrow> trim s @ newline = newline) \<and>
   (health_plans d' = health_plans d \<and>
    patients d' (trim s @ newline) = patients d (trim s @ newline) \<and>
    purchases d' (trim s @ newline) = purchases d (trim s @ newline) \<longrightarrow>
      fst (create_checkout_session f pl (JString s) d') =
        fst (create_checkout_session f pl (JString s) d) \<and>
      fst (create_customer_portal g (JString s) pl' d') =
        fst (create_customer_portal g (JString s) pl' d) \<and>
      fst (getClaims now (JString s) d') = fst (getClaims now (JString s) d) \<and>
      fst (useClaim now m (JString s) cn d') = fst (useClaim now m (JString s) cn d) \<and>
      fst (redeemPoints m (JString s) a d') = fst (redeemPoints m (JString s) a d)) \<and>
   (k \<noteq> trim s @ newline \<longrightarrow>
      purchases (snd (useClaim now m (JString s) cn d)) k = purchases d k \<and>
      patients (snd (redeemPoints m (JString s) a d)) k = patients d k) \<and>
   ((\<exists>b. fst (create_checkout_session f pl (JString s) d) = Responded 200 b) \<longrightarrow>
      patients d (trim s @ newline) \<noteq> None) \<and>
   ((\<exists>b. fst (create_customer_portal g (JString s) pl' d) = Responded 200 b) \<longrightarrow>
      patients d (trim s @ newline) \<noteq> None) \<and>
   ((\<exists>b. fst (getClaims now (JString s) d) = Responded 200 b) \<longrightarrow>
      patients d (trim s @ newline) \<noteq> None) \<and>
   ((\<exists>b. fst (redeemPoints m (JString s) a d) = Responded 200 b) \<longrightarrow>
      patients d (trim s @ newline) \<noteq> None) \<and>
   (fst (create_checkout_session f pl (JString s) d) =
      Responded 404 (ErrorJson ''Patient not found'') \<longrightarrow>
      patients d (trim s @ newline) = None) \<and>
   (fst (create_customer_portal g (JString s) pl' d) =
      Responded 404 (ErrorJson ''Patient not found'') \<longrightarrow>
      patients d (trim s @ newline) = None) \<and>
   (fst (getClaims now (JString s) d) = Responded 404 (ErrorJson ''Patient not found'') \<longrightarrow>
      patients d (trim s @ newline) = None) \<and>
   (fst (redeemPoints m (JString s) a d) = Responded 404 (Text ''Patient not found'') \<longrightarrow>
      patients d (trim s @ newline) = None)"
    by (intro conjI)
qed

text \<open>
  C10 on examples: the identifier \<open>u1\<close> with white space around it resolves to the stored
  key, and a patient document under \<open>u1\<close> without the newline is never consulted; the
  four entry points that load the patient succeed for it; for the identifier \<open>zz\<close>, under
  whose key nothing is stored, they answer that the patient is not found.
\<close>

theorem id_normalisation_witness:
  "0x2F \<notin> set (js '' u1  '') \<and> trim (js '' u1  '') @ newline = u1 \<and>
   doc (Some u1) = Inr u1 \<and> last u1 = 0x0A \<and>
   0x2F \<notin> set (js ''   '') \<and> list_all isWhiteSpace (js ''   '') \<and>
   trim (js ''   '') @ newline = newline \<and>
   health_plans other_store = health_plans (store []) \<and>
   patients other_store u1 = patients (store []) u1 \<and>
   purchases other_store u1 = purchases (store []) u1 \<and>
   patients other_store (js ''u1'') \<noteq> patients (store []) (js ''u1'') \<and>
   purchases other_store (js ''u1'') \<noteq> purchases (store []) (js ''u1'') \<and>
   fst (create_checkout_session stripe_up (Some (js ''prod_basic'')) (JString (js '' u1  ''))
          other_store) =
     fst (create_checkout_session stripe_up (Some (js ''prod_basic'')) (JString (js '' u1  ''))
            (store [])) \<and>
   fst (create_customer_portal portal_up (JString (js '' u1  '')) (Some (js ''basic''))
          other_store) =
     fst (create_customer_portal portal_up (JString (js '' u1  '')) (Some (js ''basic''))
            (store [])) \<and>
   fst (getClaims jan2025 (JString (js '' u1  '')) other_store) =
     fst (getClaims jan2025 (JString (js '' u1  '')) (store [])) \<and>
   fst (useClaim jan2025 ''POST'' (JString (js '' u1  '')) (Some (js ''dental'')) other_store) =
     fst (useClaim jan2025 ''POST'' (JString (js '' u1  '')) (Some (js ''dental'')) (store [])) \<and>
   fst (redeemPoints ''POST'' (JString (js '' u1  '')) (Truthy (Num 30)) other_store) =
     fst (redeemPoints ''POST'' (JString (js '' u1  '')) (Truthy (Num 30)) (store [])) \<and>
   js ''u1'' \<noteq> u1 \<and>
   purchases (snd (useClaim jan2025 ''POST'' (JString (js '' u1  '')) (Some (js ''dental''))
                     (store []))) (js ''u1'') = purchases (store []) (js ''u1'') \<and>
   patients (snd (redeemPoints ''POST'' (JString (js '' u1  '')) (Truthy (Num 30))
                    (store []))) (js ''u1'') = patients (store []) (js ''u1'') \<and>
   fst (create_checkout_session stripe_up (Some (js ''prod_basic'')) (JString (js '' u1  ''))
          (store [])) = Responded 200 (SessionJson (js ''cs_1'') (js ''checkout'')) \<and>
   fst (create_customer_portal portal_up (JString (js '' u1  '')) (Some (js ''basic''))
          (store [dental_purchase 1 0])) = Responded 200 (UrlJson (js ''portal'')) \<and>
   fst (getClaims jan2025 (JString (js '' u1  '')) (store [])) =
     Responded 200 (ClaimsJson [] (Num 50)) \<and>
   fst (redeemPoints ''POST'' (JString (js '' u1  '')) (Truthy (Num 30)) (store [])) =
     Responded 200 (Text ''Points redeemed successfully'') \<and>
   patients (store []) u1 \<noteq> None \<and> patients (store [dental_purchase 1 0]) u1 \<noteq> None \<and>
   0x2F \<notin> set (js ''zz'') \<and>
   fst (create_checkout_session stripe_up (Some (js ''prod_basic'')) (JString (js ''zz''))
          (store [])) = Responded 404 (ErrorJson ''Patient not found'') \<and>
   fst (create_customer_portal portal_up (JString (js ''zz'')) (Some (js ''basic''))
          (store [])) = Responded 404 (ErrorJson ''Patient not found'') \<and>
   fst (getClaims jan2025 (JString (js ''zz'')) (store [])) =
     Responded 404 (ErrorJson ''Patient not found'') \<and>
   fst (redeemPoints ''POST'' (JString (js ''zz'')) (Truthy (Num 30)) (store [])) =
     Responded 404 (Text ''Patient not found'') \<and>
   patients (store []) (trim (js ''zz'') @ newline) = None"
proof -
  note T0 = id_normalisation
    [where s = "js '' u1  ''" and d = "store []" and d' = other_store and k = "js ''u1''"
       and now = jan2025 and m = "''POST''" and cn = "Some (js ''dental'')"
       and a = "Truthy (Num 30)" and f = stripe_up and g = portal_up
       and pl = "Some (js ''prod_basic'')" and pl' = "Some (js ''basic'')"]
  note T1 = id_normalisation
    [where s = "js '' u1  ''" and d = "store [dental_purchase 1 0]" and g = portal_up
       and pl' = "Some (js ''basic'')"]
  note T2 = id_normalisation
    [where s = "js ''zz''" and d = "store []" and now = jan2025 and m = "''POST''"
       and a = "Truthy (Num 30)" and f = stripe_up and g = portal_up
       and pl = "Some (js ''prod_basic'')" and pl' = "Some (js ''basic'')"]
  note W = id_normalisation [where s = "js ''   ''"]
  have ns: "0x2F \<notin> set (js '' u1  '')" "0x2F \<notin> set (js ''   '')" "0x2F \<notin> set (js ''zz'')"
    by (simp_all add: js_def)
  have ws: "list_all isWhiteSpace (js ''   '')" by (simp add: js_def isWhiteSpace_def)
  have eq: "health_plans other_store = health_plans (store [])"
    "patients other_store u1 = patients (store []) u1"
    "purchases other_store u1 = purchases (store []) u1"
    "patients other_store (js ''u1'') \<noteq> patients (store []) (js ''u1'')"
    "purchases other_store (js ''u1'') \<noteq> purchases (store []) (js ''u1'')"
    using u1_neq by (auto simp: other_store_def store_def)
  have ne: "js '' u1  '' \<noteq> []" "js ''prod_basic'' \<noteq> []" "js ''basic'' \<noteq> []"
    "js ''dental'' \<noteq> []" "js ''cus_1'' \<noteq> []" "js ''zz'' \<noteq> []"
    by (simp_all add: js_def)
  have zz: "trim (js ''zz'') @ newline = js ''zz'' @ newline"
    by (simp add: trim_def js_def isWhiteSpace_def)
  have dz: "doc (Some (js ''zz'' @ newline)) = Inr (js ''zz'' @ newline)"
    by (simp add: doc_def js_def newline_def Let_def)
  have nz: "js ''zz'' @ newline \<noteq> []" by (simp add: newline_def)
  have pz: "patients (store ps) (js ''zz'' @ newline) = None" for ps
    by (simp add: store_def u1_def js_def)
  have o: "orderBy_purchased_at_desc [] = []"
    by (simp add: orderBy_purchased_at_desc_def enumerate_eq_zip)
  have fp: "find (\<lambda>(planDocId, p). stripe_product_id p = js ''prod_basic'')
              (health_plans (store ps)) = Some (js ''basic'', basic_plan)" for ps
    by (simp add: store_def basic_plan_def)
  have c1: "fst (create_checkout_session stripe_up (Some (js ''prod_basic''))
                   (JString (js '' u1  '')) (store [])) =
            Responded 200 (SessionJson (js ''cs_1'') (js ''checkout''))"
    using ne by (simp add: create_checkout_session_def Let_def falsy_def falsy_str_def
                   trim_spaces_u1 doc_u1 fp patients_store patient_u1_def stripe_up_def)
  have c2: "fst (create_customer_portal portal_up (JString (js '' u1  '')) (Some (js ''basic''))
                   (store [dental_purchase 1 0])) = Responded 200 (UrlJson (js ''portal''))"
    using ne by (simp add: create_customer_portal_def Let_def falsy_str_def trim_spaces_u1
                   doc_u1 patients_store purchases_store u1_nonempty dental_purchase_def
                   portal_up_def)
  have c3: "fst (getClaims jan2025 (JString (js '' u1  '')) (store [])) =
              Responded 200 (ClaimsJson [] (Num 50))"
    by (simp add: getClaims_def Let_def trim_spaces_u1 doc_u1 u1_nonempty patients_store
          purchases_store o patient_u1_def or_zero_def)
  have c4: "fst (redeemPoints ''POST'' (JString (js '' u1  '')) (Truthy (Num 30)) (store [])) =
              Responded 200 (Text ''Points redeemed successfully'')"
    by (simp add: redeemPoints_def redeemPoints_read_def redeemPoints_update_def Let_def
          trim_spaces_u1 doc_u1 u1_nonempty patients_store patient_u1_def update_patient_def
          le_def lt_def sub_def or_zero_def)
  have z1: "fst (create_checkout_session stripe_up (Some (js ''prod_basic''))
                   (JString (js ''zz'')) (store [])) =
            Responded 404 (ErrorJson ''Patient not found'')"
    using ne by (simp add: create_checkout_session_def Let_def falsy_def falsy_str_def
                   zz dz fp pz)
  have z2: "fst (create_customer_portal portal_up (JString (js ''zz'')) (Some (js ''basic''))
                   (store [])) = Responded 404 (ErrorJson ''Patient not found'')"
    using ne nz by (simp add: create_customer_portal_def Let_def falsy_str_def zz dz pz)
  have z3: "fst (getClaims jan2025 (JString (js ''zz'')) (store [])) =
              Responded 404 (ErrorJson ''Patient not found'')"
    using nz by (simp add: getClaims_def Let_def zz dz pz)
  have z4: "fst (redeemPoints ''POST'' (JString (js ''zz'')) (Truthy (Num 30)) (store [])) =
              Responded 404 (Text ''Patient not found'')"
    using nz by (simp add: redeemPoints_def redeemPoints_read_def Let_def zz dz pz le_def)
  note Q0 = T0 [THEN mp, OF ns(1), unfolded trim_spaces_u1]
  note Q1 = T1 [THEN mp, OF ns(1), unfolded trim_spaces_u1]
  note Q2 = T2 [THEN mp, OF ns(3)]
  note QW = W [THEN mp, OF ns(2)]
  from Q0 have k: "doc (Some u1) = Inr u1" "last u1 = 0x0A" by blast+
  from QW ws have w: "trim (js ''   '') @ newline = newline" by blast
  from Q0 eq(1-3) have r:
    "fst (create_checkout_session stripe_up (Some (js ''prod_basic'')) (JString (js '' u1  ''))
            other_store) =
       fst (create_checkout_session stripe_up (Some (js ''prod_basic''))
              (JString (js '' u1  '')) (store []))"
    "fst (create_customer_portal portal_up (JString (js '' u1  '')) (Some (js ''basic''))
            other_store) =
       fst (create_customer_portal portal_up (JString (js '' u1  '')) (Some (js ''basic''))
              (store []))"
    "fst (getClaims jan2025 (JString (js '' u1  '')) other_store) =
       fst (getClaims jan2025 (JString (js '' u1  '')) (store []))"
    "fst (useClaim jan2025 ''POST'' (JString (js '' u1  '')) (Some (js ''dental''))
            other_store) =
       fst (useClaim jan2025 ''POST'' (JString (js '' u1  '')) (Some (js ''dental''))
              (store []))"
    "fst (redeemPoints ''POST'' (JString (js '' u1  '')) (Truthy (Num 30)) other_store) =
       fst (redeemPoints ''POST'' (JString (js '' u1  '')) (Truthy (Num 30)) (store []))"
    by blast+
  from Q0 u1_neq have f:
    "purchases (snd (useClaim jan2025 ''POST'' (JString (js '' u1  '')) (Some (js ''dental''))
                       (store []))) (js ''u1'') = purchases (store []) (js ''u1'')"
    "patients (snd (redeemPoints ''POST'' (JString (js '' u1  '')) (Truthy (Num 30))
                      (store []))) (js ''u1'') = patients (store []) (js ''u1'')"
    by blast+
  from Q0 c1 have p0: "patients (store []) u1 \<noteq> None" by blast
  from Q1 c2 have p1: "patients (store [dental_purchase 1 0]) u1 \<noteq> None" by blast
  from Q2 z3 have p2: "patients (store []) (trim (js ''zz'') @ newline) = None" by blast
  from ns ws trim_spaces_u1 k w eq r u1_neq f c1 c2 c3 c4 p0 p1 z1 z2 z3 z4 p2
  show ?thesis by (intro conjI)
qed

end
